theory Spec2Isabelle
  imports Main
begin

section \<open>Library functions of the Go runtime used by the query builder\<close>

text \<open>
  Go strings are byte sequences; they are modelled as \<open>string\<close> (lists of 8-bit
  characters). The quote and the backslash are named, since both occur in the
  escaping code.
\<close>

definition quote :: char where
  "quote = CHR 0x27"

definition backslash :: char where
  "backslash = CHR 0x5C"

text \<open>\<^verbatim>\<open>strings.Join(elems, sep)\<close>.\<close>

fun strings_Join :: "string list \<Rightarrow> string \<Rightarrow> string" where
  "strings_Join [] sep = []"
| "strings_Join [x] sep = x"
| "strings_Join (x # y # ys) sep = x @ sep @ strings_Join (y # ys) sep"

text \<open>
  \<^verbatim>\<open>strings.HasPrefix(s, prefix)\<close>:
  \<^verbatim>\<open>len(s) >= len(prefix) && s[:len(prefix)] == prefix\<close>.
\<close>

definition strings_HasPrefix :: "string \<Rightarrow> string \<Rightarrow> bool" where
  "strings_HasPrefix s p = (length p \<le> length s \<and> take (length p) s = p)"

text \<open>
  \<^verbatim>\<open>strings.ReplaceAll(s, old, new)\<close>: the non-overlapping occurrences of
  \<open>old\<close> are replaced from left to right. For an empty \<open>old\<close> Go inserts
  \<open>new\<close> before every rune and at the end; runes are bytes here, which is
  exact on ASCII input (the program never calls it with an empty \<open>old\<close>).
\<close>

function strings_ReplaceAll :: "string \<Rightarrow> string \<Rightarrow> string \<Rightarrow> string" where
  "strings_ReplaceAll [] old new = (if old = [] then new else [])"
| "strings_ReplaceAll (c # s) old new =
     (if old = [] then new @ c # strings_ReplaceAll s old new
      else if strings_HasPrefix (c # s) old
        then new @ strings_ReplaceAll (drop (length old) (c # s)) old new
        else c # strings_ReplaceAll s old new)"
  by pat_completeness auto
termination
  by (relation "measure (\<lambda>(s, old, new). length s)") auto

text \<open>Decimal digits of a natural number: what \<^verbatim>\<open>%d\<close> prints for it.\<close>

definition digit_char :: "nat \<Rightarrow> char" where
  "digit_char n = ''0123456789'' ! (n mod 10)"

fun fmt_nat :: "nat \<Rightarrow> string" where
  "fmt_nat n = (if n < 10 then [digit_char n] else fmt_nat (n div 10) @ [digit_char n])"

declare fmt_nat.simps [simp del]

text \<open>\<^verbatim>\<open>%d\<close> (and \<^verbatim>\<open>%v\<close>) on a signed integer.\<close>

definition fmt_d :: "int \<Rightarrow> string" where
  "fmt_d i = (if i < 0 then CHR ''-'' # fmt_nat (nat (- i)) else fmt_nat (nat i))"

text \<open>\<^verbatim>\<open>%t\<close> on a boolean.\<close>

definition fmt_t :: "bool \<Rightarrow> string" where
  "fmt_t b = (if b then ''true'' else ''false'')"

text \<open>
  \<^verbatim>\<open>%v\<close> on a floating-point number is \<^verbatim>\<open>strconv.FormatFloat(x, 'g', -1, size)\<close>:
  the shortest decimal that reads back as \<open>x\<close>, laid out by
  \<^verbatim>\<open>formatDigits\<close>. The layout reads only that decimal (strconv's
  \<^verbatim>\<open>decimalSlice\<close>), so a float in value position is represented by it:
  \<open>FDec neg d dp\<close> is the number \<open>0.d\<^sub>1d\<^sub>2\<dots>d\<^sub>n \<times> 10\<^sup>d\<^sup>p\<close> with sign \<open>neg\<close>
  (zero has no digits and \<open>dp = 0\<close>), \<open>FInf neg\<close> an infinity, \<open>FNaN\<close> a NaN.
\<close>

datatype floatval = FDec bool "nat list" int | FInf bool | FNaN

text \<open>\<^verbatim>\<open>fmtF\<close> of strconv: \<^verbatim>\<open>-ddddddd.ddddd\<close> with \<open>prec\<close> fraction digits.\<close>

definition fmtF :: "bool \<Rightarrow> nat list \<Rightarrow> int \<Rightarrow> nat \<Rightarrow> string" where
  "fmtF neg d dp prec =
     (if neg then ''-'' else []) @
     (if 0 < dp then map digit_char (take (nat dp) d) @ replicate (nat dp - length d) (CHR ''0'')
      else ''0'') @
     (if 0 < prec
      then CHR ''.'' #
        map (\<lambda>i. let j = dp + int i
                 in if 0 \<le> j \<and> j < int (length d) then digit_char (d ! nat j) else CHR ''0'')
            [0..<prec]
      else [])"

text \<open>
  \<^verbatim>\<open>fmtE\<close> of strconv: \<^verbatim>\<open>-d.ddddde\<plusminus>dd\<close>, the exponent with two digits, or
  three from 100 on (a float64 exponent stays below 1000).
\<close>

definition fmtE :: "bool \<Rightarrow> nat list \<Rightarrow> int \<Rightarrow> nat \<Rightarrow> string" where
  "fmtE neg d dp prec =
     (let m = min (length d) (prec + 1);
          exp = (if d = [] then 0 else dp - 1);
          e = nat \<bar>exp\<bar>
      in (if neg then ''-'' else []) @
         [if d = [] then CHR ''0'' else digit_char (hd d)] @
         (if 0 < prec
          then CHR ''.'' # map digit_char (take (m - 1) (drop 1 d)) @
               replicate (prec + 1 - max 1 m) (CHR ''0'')
          else []) @
         CHR ''e'' # (if exp < 0 then CHR ''-'' else CHR ''+'') #
         (if e < 10 then [CHR ''0'', digit_char e]
          else if e < 100 then [digit_char (e div 10), digit_char e]
          else [digit_char (e div 100), digit_char (e div 10), digit_char e]))"

text \<open>
  The \<^verbatim>\<open>'g'\<close> case of \<^verbatim>\<open>formatDigits\<close> in shortest mode: the exponent
  form is used when the decimal exponent is below \<open>-4\<close> or at least \<open>6\<close>
  (\<^verbatim>\<open>eprec = 6\<close>), the plain form with \<open>max (nd - dp) 0\<close> fraction digits
  otherwise. Infinities print as \<^verbatim>\<open>+Inf\<close> and \<^verbatim>\<open>-Inf\<close>, a NaN as \<^verbatim>\<open>NaN\<close>.
\<close>

fun fmt_g :: "floatval \<Rightarrow> string" where
  "fmt_g (FDec neg d dp) =
     (let exp = dp - 1
      in if exp < - 4 \<or> 6 \<le> exp then fmtE neg d dp (length d - 1)
         else fmtF neg d dp (nat (max (int (length d) - dp) 0)))"
| "fmt_g (FInf neg) = (if neg then ''-Inf'' else ''+Inf'')"
| "fmt_g FNaN = ''NaN''"

text \<open>
  \<^verbatim>\<open>%f\<close> prints the exact binary value rounded to six fraction digits (ties
  to even), so the distance threshold, the only float printed with it, is
  represented by its exact value: \<open>F64 neg m e\<close> is \<open>m \<times> 2\<^sup>e\<close> with sign
  \<open>neg\<close>. Infinities and NaN print as under \<^verbatim>\<open>%v\<close>.
\<close>

datatype float64 = F64 bool nat int | F64Inf bool | F64NaN

text \<open>The value times \<open>10\<^sup>6\<close>, rounded to the nearest natural number, ties to even.\<close>

definition micro_units :: "nat \<Rightarrow> int \<Rightarrow> nat" where
  "micro_units m e =
     (if 0 \<le> e then m * 2 ^ nat e * 1000000
      else let den = 2 ^ nat (- e); q = (m * 1000000) div den; r = (m * 1000000) mod den
           in if den < 2 * r \<or> (2 * r = den \<and> odd q) then q + 1 else q)"

definition pad6 :: "nat \<Rightarrow> string" where
  "pad6 k = map (\<lambda>p. digit_char (k div 10 ^ p)) [5, 4, 3, 2, 1, 0]"

fun fmt_f :: "float64 \<Rightarrow> string" where
  "fmt_f (F64 neg m e) =
     (let n = micro_units m e
      in (if neg then ''-'' else []) @ fmt_nat (n div 1000000) @ CHR ''.'' # pad6 (n mod 1000000))"
| "fmt_f (F64Inf neg) = (if neg then ''-Inf'' else ''+Inf'')"
| "fmt_f F64NaN = ''NaN''"

section \<open>Values and the value formatter\<close>

text \<open>
  A leaf value is an \<^verbatim>\<open>interface{}\<close>. The formatter distinguishes nil, strings,
  signed and unsigned integers of every width, floats and booleans. The phrase
  matcher tests for the type \<^verbatim>\<open>[]string\<close> (\<open>VStrings\<close>), and
  \<^verbatim>\<open>formatInValues\<close> for a slice of any type (\<open>VSlice\<close>, given by its
  elements). A value of any other dynamic type (a struct, a map, a pointer, a
  named string type) is \<open>VOther t\<close>, where \<open>t\<close> is the text that \<^verbatim>\<open>%v\<close> prints
  for it.
\<close>

datatype gvalue =
    VNil
  | VString string
  | VInt int
  | VUint nat
  | VFloat floatval
  | VBool bool
  | VStrings "string list"
  | VSlice "gvalue list"
  | VOther string

text \<open>\<^verbatim>\<open>fmt.Sprintf("%v", v)\<close>.\<close>

fun sprint_v :: "gvalue \<Rightarrow> string" where
  "sprint_v VNil = ''<nil>''"
| "sprint_v (VString s) = s"
| "sprint_v (VInt i) = fmt_d i"
| "sprint_v (VUint n) = fmt_nat n"
| "sprint_v (VFloat x) = fmt_g x"
| "sprint_v (VBool b) = fmt_t b"
| "sprint_v (VStrings ss) = ''['' @ strings_Join ss '' '' @ '']''"
| "sprint_v (VSlice vs) = ''['' @ strings_Join (map sprint_v vs) '' '' @ '']''"
| "sprint_v (VOther t) = t"

definition escapeString :: "string \<Rightarrow> string" where
  "escapeString s = strings_ReplaceAll s [quote] [backslash, quote]"

fun formatValue :: "gvalue \<Rightarrow> string" where
  "formatValue VNil = ''null''"
| "formatValue (VString v) = [quote] @ escapeString v @ [quote]"
| "formatValue (VInt v) = sprint_v (VInt v)"
| "formatValue (VUint v) = sprint_v (VUint v)"
| "formatValue (VFloat v) = sprint_v (VFloat v)"
| "formatValue (VBool v) = fmt_t v"
| "formatValue v = [quote] @ sprint_v v @ [quote]"

text \<open>
  \<^verbatim>\<open>formatInValues\<close>: a slice is formatted element by element; anything else
  (nil included, whose reflected kind is not a slice) goes through
  \<open>formatValue\<close>.
\<close>

fun formatInValues :: "gvalue \<Rightarrow> string" where
  "formatInValues (VSlice vs) = ''('' @ strings_Join (map formatValue vs) '', '' @ '')''"
| "formatInValues (VStrings ss) =
     ''('' @ strings_Join (map (\<lambda>s. formatValue (VString s)) ss) '', '' @ '')''"
| "formatInValues v = ''('' @ formatValue v @ '')''"

section \<open>Conditions and their rendering\<close>

type_synonym Operator = string

definition EQ :: Operator where "EQ = ''=''"
definition NEQ :: Operator where "NEQ = ''!=''"
definition GT :: Operator where "GT = ''>''"
definition GTE :: Operator where "GTE = ''>=''"
definition LT :: Operator where "LT = ''<''"
definition LTE :: Operator where "LTE = ''<=''"
definition IN :: Operator where "IN = ''in''"
definition NOT_IN :: Operator where "NOT_IN = ''not in''"
definition CONTAINS :: Operator where "CONTAINS = ''contains''"
definition NOT_CONTAINS :: Operator where "NOT_CONTAINS = ''not contains''"
definition MATCHES :: Operator where "MATCHES = ''matches''"

type_synonym ContainsType = string

definition ExactMatch :: ContainsType where "ExactMatch = ''exact''"
definition PhraseMatch :: ContainsType where "PhraseMatch = ''phrase''"
definition FuzzyMatch :: ContainsType where "FuzzyMatch = ''fuzzy''"

text \<open>
  \<^verbatim>\<open>WhereCondition\<close> is an interface: a value of it is nil (\<open>NilCondition\<close>) or
  points to one of the condition structs. The fields are those of the structs, in their order;
  pointers to a float or a boolean are options.
\<close>

datatype WhereCondition =
    NilCondition
  | FieldCondition string Operator gvalue ContainsType
  | BooleanCondition WhereCondition WhereCondition string
  | RangeCondition string gvalue gvalue
  | NearestNeighbor string string int string "float64 option" "bool option"
  | UserQueryFeature string
  | NotCondition WhereCondition
  | SameElementCondition string "WhereCondition list"
  | CustomFeature string

definition isString :: "gvalue \<Rightarrow> bool" where
  "isString v = (case v of VString _ \<Rightarrow> True | _ \<Rightarrow> False)"

text \<open>\<^verbatim>\<open>FieldCondition.ToYQL\<close>: the switch on the operator, case by case.\<close>

definition FieldCondition_ToYQL :: "string \<Rightarrow> Operator \<Rightarrow> gvalue \<Rightarrow> ContainsType \<Rightarrow> string" where
  "FieldCondition_ToYQL fld oper val ctype =
     (if oper = EQ then
        (if isString val then ''('' @ fld @ '' contains '' @ formatValue val @ '')''
         else ''('' @ fld @ '' = '' @ formatValue val @ '')'')
      else if oper = NEQ then
        (if isString val then ''!('' @ fld @ '' contains '' @ formatValue val @ '')''
         else ''('' @ fld @ '' != '' @ formatValue val @ '')'')
      else if oper = GT then ''('' @ fld @ '' > '' @ formatValue val @ '')''
      else if oper = GTE then ''('' @ fld @ '' >= '' @ formatValue val @ '')''
      else if oper = LT then ''('' @ fld @ '' < '' @ formatValue val @ '')''
      else if oper = LTE then ''('' @ fld @ '' <= '' @ formatValue val @ '')''
      else if oper = IN then ''('' @ fld @ '' in '' @ formatInValues val @ '')''
      else if oper = NOT_IN then ''('' @ fld @ '' not in '' @ formatInValues val @ '')''
      else if oper = CONTAINS then
        (if ctype = ExactMatch then ''('' @ fld @ '' contains '' @ formatValue val @ '')''
         else if ctype = PhraseMatch then
           (case val of
              VStrings keywords \<Rightarrow>
                ''('' @ fld @ '' contains phrase('' @
                strings_Join (map (\<lambda>kw. [quote] @ escapeString kw @ [quote]) keywords) '', '' @
                ''))''
            | VString str \<Rightarrow>
                ''('' @ fld @ '' contains phrase('' @ formatValue (VString str) @ ''))''
            | _ \<Rightarrow> ''('' @ fld @ '' contains '' @ formatValue val @ '')'')
         else if ctype = FuzzyMatch then
           ''('' @ fld @ '' contains fuzzy('' @ formatValue val @ ''))''
         else ''('' @ fld @ '' contains '' @ formatValue val @ '')'')
      else if oper = NOT_CONTAINS then ''('' @ fld @ '' not contains '' @ formatValue val @ '')''
      else if oper = MATCHES then ''('' @ fld @ '' matches '' @ formatValue val @ '')''
      else [])"

text \<open>\<^verbatim>\<open>NearestNeighbor.ToYQL\<close>: the parameter list is appended to in source order.\<close>

definition NearestNeighbor_ToYQL ::
  "string \<Rightarrow> string \<Rightarrow> int \<Rightarrow> string \<Rightarrow> float64 option \<Rightarrow> bool option \<Rightarrow> string" where
  "NearestNeighbor_ToYQL fld queryVector targetHits label distanceThreshold approximate =
     (let params = [''targetHits:'' @ fmt_d targetHits];
          params = (if label \<noteq> [] then params @ [''label:'' @ [quote] @ label @ [quote]]
                    else params);
          params = (case distanceThreshold of
                      Some t \<Rightarrow> params @ [''distanceThreshold:'' @ fmt_f t]
                    | None \<Rightarrow> params);
          params = (case approximate of
                      Some a \<Rightarrow> params @ [''approximate:'' @ fmt_t a]
                    | None \<Rightarrow> params);
          paramString = strings_Join params '',''
      in ''({'' @ paramString @ ''}nearestNeighbor('' @ fld @ '', '' @ queryVector @ ''))'')"

definition RangeCondition_ToYQL :: "string \<Rightarrow> gvalue \<Rightarrow> gvalue \<Rightarrow> string" where
  "RangeCondition_ToYQL fld mn mx =
     (let minCondition = ''('' @ fld @ '' >= '' @ formatValue mn @ '')'';
          maxCondition = ''('' @ fld @ '' <= '' @ formatValue mx @ '')''
      in ''('' @ minCondition @ '' and '' @ maxCondition @ '')'')"

definition UserQueryFeature_ToYQL :: "string \<Rightarrow> string" where
  "UserQueryFeature_ToYQL defaultIndex =
     (if defaultIndex \<noteq> [] then ''{defaultIndex:\"'' @ defaultIndex @ ''\"}userQuery()''
      else ''userQuery()'')"

text \<open>
  \<^verbatim>\<open>ToYQL\<close>, the method of the interface. Calling it on a nil interface value
  is a run-time panic (nil dereference): the result \<open>None\<close>. \<open>collectYQL cs acc\<close>
  is the loop that the grouped match, the rank expression and the where clause
  all run over their conditions:
  \<^verbatim>\<open>for _, c := range cs { if y := c.ToYQL(); y != "" { acc = append(acc, y) } }\<close>.
\<close>

function ToYQL :: "WhereCondition \<Rightarrow> string option"
  and collectYQL :: "WhereCondition list \<Rightarrow> string list \<Rightarrow> string list option" where
  "ToYQL NilCondition = None"
| "ToYQL (FieldCondition fld oper val ctype) = Some (FieldCondition_ToYQL fld oper val ctype)"
| "ToYQL (BooleanCondition l r oper) =
     (case ToYQL l of
        None \<Rightarrow> None
      | Some ls \<Rightarrow>
          (case ToYQL r of
             None \<Rightarrow> None
           | Some rs \<Rightarrow> Some (''('' @ ls @ '' '' @ oper @ '' '' @ rs @ '')'')))"
| "ToYQL (RangeCondition fld mn mx) = Some (RangeCondition_ToYQL fld mn mx)"
| "ToYQL (NearestNeighbor fld qv hits label thr approx) =
     Some (NearestNeighbor_ToYQL fld qv hits label thr approx)"
| "ToYQL (UserQueryFeature defaultIndex) = Some (UserQueryFeature_ToYQL defaultIndex)"
| "ToYQL (NotCondition c) =
     (case ToYQL c of None \<Rightarrow> None | Some cs \<Rightarrow> Some (''!('' @ cs @ '')''))"
| "ToYQL (SameElementCondition fld cs) =
     (if length cs = 0 then Some []
      else case collectYQL cs [] of
             None \<Rightarrow> None
           | Some conditionStrings \<Rightarrow>
               if length conditionStrings = 0 then Some []
               else Some (''('' @ fld @ '' contains sameElement('' @
                          strings_Join conditionStrings '', '' @ ''))''))"
| "ToYQL (CustomFeature expression) = Some expression"
| "collectYQL [] acc = Some acc"
| "collectYQL (c # cs) acc =
     (case ToYQL c of
        None \<Rightarrow> None
      | Some y \<Rightarrow> collectYQL cs (if y \<noteq> [] then acc @ [y] else acc))"
  by pat_completeness auto
termination
  by (relation "measure (\<lambda>x. case x of Inl c \<Rightarrow> size c | Inr (cs, acc) \<Rightarrow> size_list size cs)")
     auto

section \<open>Constructors and combinators\<close>

datatype FieldBuilder = FieldBuilder (field: string)

text \<open>The entry point \<^verbatim>\<open>Field(name)\<close> (primed: \<open>Field\<close> is a constant of HOL).\<close>

definition Field' :: "string \<Rightarrow> FieldBuilder" where
  "Field' name = FieldBuilder name"

text \<open>A condition built without a match mode has the zero value of \<open>ContainsType\<close>.\<close>

definition Eq :: "FieldBuilder \<Rightarrow> gvalue \<Rightarrow> WhereCondition" where
  "Eq f v = FieldCondition (field f) EQ v []"

definition NotEq :: "FieldBuilder \<Rightarrow> gvalue \<Rightarrow> WhereCondition" where
  "NotEq f v = FieldCondition (field f) NEQ v []"

definition Gt :: "FieldBuilder \<Rightarrow> gvalue \<Rightarrow> WhereCondition" where
  "Gt f v = FieldCondition (field f) GT v []"

definition Gte :: "FieldBuilder \<Rightarrow> gvalue \<Rightarrow> WhereCondition" where
  "Gte f v = FieldCondition (field f) GTE v []"

definition Lt :: "FieldBuilder \<Rightarrow> gvalue \<Rightarrow> WhereCondition" where
  "Lt f v = FieldCondition (field f) LT v []"

definition Lte :: "FieldBuilder \<Rightarrow> gvalue \<Rightarrow> WhereCondition" where
  "Lte f v = FieldCondition (field f) LTE v []"

text \<open>The variadic arguments of \<^verbatim>\<open>In\<close> and \<^verbatim>\<open>NotIn\<close> are stored as one slice.\<close>

definition In :: "FieldBuilder \<Rightarrow> gvalue list \<Rightarrow> WhereCondition" where
  "In f vals = FieldCondition (field f) IN (VSlice vals) []"

definition NotIn :: "FieldBuilder \<Rightarrow> gvalue list \<Rightarrow> WhereCondition" where
  "NotIn f vals = FieldCondition (field f) NOT_IN (VSlice vals) []"

record ContainsConfig =
  Type :: ContainsType

type_synonym ContainsOption = "ContainsConfig \<Rightarrow> ContainsConfig"

definition WithExactMatching :: ContainsOption where
  "WithExactMatching config = config\<lparr>Type := ExactMatch\<rparr>"

definition WithPhraseMatching :: ContainsOption where
  "WithPhraseMatching config = config\<lparr>Type := PhraseMatch\<rparr>"

definition WithFuzzyMatching :: ContainsOption where
  "WithFuzzyMatching config = config\<lparr>Type := FuzzyMatch\<rparr>"

definition Contains :: "FieldBuilder \<Rightarrow> gvalue \<Rightarrow> ContainsOption list \<Rightarrow> WhereCondition" where
  "Contains f v opts =
     (let config = foldl (\<lambda>c opt. opt c) \<lparr>Type = ExactMatch\<rparr> opts
      in FieldCondition (field f) CONTAINS v (Type config))"

definition NotContains :: "FieldBuilder \<Rightarrow> string \<Rightarrow> WhereCondition" where
  "NotContains f v = FieldCondition (field f) NOT_CONTAINS (VString v) []"

definition Matches :: "FieldBuilder \<Rightarrow> string \<Rightarrow> WhereCondition" where
  "Matches f pattern = FieldCondition (field f) MATCHES (VString pattern) []"

definition Between :: "FieldBuilder \<Rightarrow> gvalue \<Rightarrow> gvalue \<Rightarrow> WhereCondition" where
  "Between f mn mx = RangeCondition (field f) mn mx"

definition ContainsSameElement :: "FieldBuilder \<Rightarrow> WhereCondition list \<Rightarrow> WhereCondition" where
  "ContainsSameElement f conds = SameElementCondition (field f) conds"

record NearestNeighborConfig =
  Label :: string
  DistanceThreshold :: "float64 option"
  Approximate :: "bool option"

type_synonym NearestNeighborOption = "NearestNeighborConfig \<Rightarrow> NearestNeighborConfig"

definition WithLabel :: "string \<Rightarrow> NearestNeighborOption" where
  "WithLabel label config = config\<lparr>Label := label\<rparr>"

definition WithThreshold :: "float64 \<Rightarrow> NearestNeighborOption" where
  "WithThreshold threshold config = config\<lparr>DistanceThreshold := Some threshold\<rparr>"

definition WithApproximate :: "bool \<Rightarrow> NearestNeighborOption" where
  "WithApproximate approximate config = config\<lparr>Approximate := Some approximate\<rparr>"

text \<open>The method \<^verbatim>\<open>FieldBuilder.NearestNeighbor\<close>: the options are applied in order.\<close>

definition Field_NearestNeighbor ::
  "FieldBuilder \<Rightarrow> string \<Rightarrow> int \<Rightarrow> NearestNeighborOption list \<Rightarrow> WhereCondition" where
  "Field_NearestNeighbor f queryVector targetHits opts =
     (let config = foldl (\<lambda>c opt. opt c)
                     \<lparr>Label = [], DistanceThreshold = None, Approximate = None\<rparr> opts
      in NearestNeighbor (field f) queryVector targetHits
           (Label config) (DistanceThreshold config) (Approximate config))"

text \<open>
  \<^verbatim>\<open>And\<close> and \<^verbatim>\<open>Or\<close>: nil for no condition, the condition itself for one, and
  otherwise the loop \<^verbatim>\<open>for i := 1; i < len(conditions); i++\<close> that wraps the
  result so far.
\<close>

fun And_loop :: "WhereCondition \<Rightarrow> WhereCondition list \<Rightarrow> WhereCondition" where
  "And_loop result [] = result"
| "And_loop result (c # cs) = And_loop (BooleanCondition result c ''AND'') cs"

fun And :: "WhereCondition list \<Rightarrow> WhereCondition" where
  "And [] = NilCondition"
| "And [c] = c"
| "And (c # cs) = And_loop c cs"

fun Or_loop :: "WhereCondition \<Rightarrow> WhereCondition list \<Rightarrow> WhereCondition" where
  "Or_loop result [] = result"
| "Or_loop result (c # cs) = Or_loop (BooleanCondition result c ''OR'') cs"

fun Or :: "WhereCondition list \<Rightarrow> WhereCondition" where
  "Or [] = NilCondition"
| "Or [c] = c"
| "Or (c # cs) = Or_loop c cs"

definition UserQuery :: "string list \<Rightarrow> WhereCondition" where
  "UserQuery defaultIndex =
     UserQueryFeature (case defaultIndex of [] \<Rightarrow> [] | index # _ \<Rightarrow> index)"

definition Not_cond :: "WhereCondition \<Rightarrow> WhereCondition" where
  "Not_cond condition = NotCondition condition"

definition Custom :: "string \<Rightarrow> WhereCondition" where
  "Custom expression = CustomFeature expression"

section \<open>The rank expression and the query builder\<close>

text \<open>\<^verbatim>\<open>RankExpressionImpl\<close>; a \<^verbatim>\<open>RankExpression\<close> is nil or points to one.\<close>

record RankExpressionImpl =
  conditions :: "WhereCondition list"

definition NewRank :: RankExpressionImpl where
  "NewRank = \<lparr>conditions = []\<rparr>"

definition AddCondition :: "RankExpressionImpl \<Rightarrow> WhereCondition \<Rightarrow> RankExpressionImpl" where
  "AddCondition r condition = r\<lparr>conditions := conditions r @ [condition]\<rparr>"

definition Rank_ToYQL :: "RankExpressionImpl \<Rightarrow> string option" where
  "Rank_ToYQL r =
     (if length (conditions r) = 0 then Some []
      else case collectYQL (conditions r) [] of
             None \<Rightarrow> None
           | Some expressions \<Rightarrow>
               if length expressions = 0 then Some []
               else Some (''rank('' @ strings_Join expressions '', '' @ '')''))"

text \<open>
  \<^verbatim>\<open>QueryBuilderImpl\<close>. The input parameters are a Go map; it is kept as an
  association list with distinct keys, whose order stands for the order in
  which \<^verbatim>\<open>range\<close> visits the keys.
\<close>

record QueryBuilderImpl =
  selectFields :: "string list"
  sources :: "string list"
  whereConditions :: "WhereCondition list"
  rankExpression :: "RankExpressionImpl option"
  ranking :: string
  hits :: int
  offset :: int
  defaultIndex :: string
  inputParams :: "(string \<times> gvalue) list"
  query :: string

record VespaQuery =
  YQL :: string
  Ranking :: string
  Hits :: int
  Offset :: int
  DefaultIndex :: string
  Input :: "(string \<times> gvalue) list"
  Query :: string

record ValidationError =
  ErrField :: string
  ErrMessage :: string

definition NewQueryBuilder :: QueryBuilderImpl where
  "NewQueryBuilder =
     \<lparr>selectFields = [], sources = [], whereConditions = [], rankExpression = None,
      ranking = [], hits = 0, offset = 0, defaultIndex = [], inputParams = [], query = []\<rparr>"

definition Select :: "QueryBuilderImpl \<Rightarrow> string list \<Rightarrow> QueryBuilderImpl" where
  "Select qb flds = qb\<lparr>selectFields := selectFields qb @ flds\<rparr>"

definition From :: "QueryBuilderImpl \<Rightarrow> string list \<Rightarrow> QueryBuilderImpl" where
  "From qb srcs = qb\<lparr>sources := sources qb @ srcs\<rparr>"

definition Where :: "QueryBuilderImpl \<Rightarrow> WhereCondition \<Rightarrow> QueryBuilderImpl" where
  "Where qb condition = qb\<lparr>whereConditions := whereConditions qb @ [condition]\<rparr>"

definition Rank :: "QueryBuilderImpl \<Rightarrow> RankExpressionImpl option \<Rightarrow> QueryBuilderImpl" where
  "Rank qb rankExpr = qb\<lparr>rankExpression := rankExpr\<rparr>"

definition WithRanking :: "QueryBuilderImpl \<Rightarrow> string \<Rightarrow> QueryBuilderImpl" where
  "WithRanking qb profile = qb\<lparr>ranking := profile\<rparr>"

definition WithHits :: "QueryBuilderImpl \<Rightarrow> int \<Rightarrow> QueryBuilderImpl" where
  "WithHits qb h = qb\<lparr>hits := h\<rparr>"

definition WithOffset :: "QueryBuilderImpl \<Rightarrow> int \<Rightarrow> QueryBuilderImpl" where
  "WithOffset qb off = qb\<lparr>offset := off\<rparr>"

definition WithDefaultIndex :: "QueryBuilderImpl \<Rightarrow> string \<Rightarrow> QueryBuilderImpl" where
  "WithDefaultIndex qb index = qb\<lparr>defaultIndex := index\<rparr>"

definition WithQuery :: "QueryBuilderImpl \<Rightarrow> string \<Rightarrow> QueryBuilderImpl" where
  "WithQuery qb q = qb\<lparr>query := q\<rparr>"

text \<open>\<^verbatim>\<open>m[key] = value\<close> on the association list.\<close>

fun map_assign :: "(string \<times> gvalue) list \<Rightarrow> string \<Rightarrow> gvalue \<Rightarrow> (string \<times> gvalue) list" where
  "map_assign [] key val = [(key, val)]"
| "map_assign ((k, v) # m) key val =
     (if k = key then (k, val) # m else (k, v) # map_assign m key val)"

definition WithInput :: "QueryBuilderImpl \<Rightarrow> string \<Rightarrow> gvalue \<Rightarrow> QueryBuilderImpl" where
  "WithInput qb key val = qb\<lparr>inputParams := map_assign (inputParams qb) key val\<rparr>"

definition buildSelectClause :: "QueryBuilderImpl \<Rightarrow> string" where
  "buildSelectClause qb =
     (if length (selectFields qb) = 0 then ''select *''
      else ''select '' @ strings_Join (selectFields qb) '', '')"

definition buildFromClause :: "QueryBuilderImpl \<Rightarrow> string" where
  "buildFromClause qb =
     (if length (sources qb) = 0 then ''from sources *''
      else ''from sources '' @ strings_Join (sources qb) '', '')"

definition buildWhereClause :: "QueryBuilderImpl \<Rightarrow> string option" where
  "buildWhereClause qb =
     (case collectYQL (whereConditions qb) [] of
        None \<Rightarrow> None
      | Some conds \<Rightarrow>
          (case (case rankExpression qb of
                   None \<Rightarrow> Some conds
                 | Some r \<Rightarrow>
                     (case Rank_ToYQL r of
                        None \<Rightarrow> None
                      | Some rankYQL \<Rightarrow>
                          Some (if rankYQL \<noteq> [] then conds @ [rankYQL] else conds))) of
             None \<Rightarrow> None
           | Some conds \<Rightarrow>
               if length conds = 0 then Some [] else Some (strings_Join conds '' and '')))"

text \<open>The loop of \<^verbatim>\<open>validate\<close> over the keys of the input parameters.\<close>

fun validate_keys :: "(string \<times> gvalue) list \<Rightarrow> ValidationError option" where
  "validate_keys [] = None"
| "validate_keys ((key, v) # m) =
     (if \<not> strings_HasPrefix key ''input.query(''
      then Some \<lparr>ErrField = ''input'',
                 ErrMessage = ''input parameter key '' @ [quote] @ key @ [quote] @
                              '' should start with '' @ [quote] @ ''input.query('' @ [quote]\<rparr>
      else validate_keys m)"

definition validate :: "QueryBuilderImpl \<Rightarrow> ValidationError option" where
  "validate qb =
     (if length (sources qb) = 0
      then Some \<lparr>ErrField = ''sources'', ErrMessage = ''at least one source must be specified''\<rparr>
      else validate_keys (inputParams qb))"

text \<open>
  \<^verbatim>\<open>BuildYQL\<close> returns a string and an error; \<^verbatim>\<open>Build\<close> a pointer to a query
  (nil on failure) and an error. \<open>None\<close> is a panic raised while rendering.
\<close>

definition BuildYQL :: "QueryBuilderImpl \<Rightarrow> (string \<times> ValidationError option) option" where
  "BuildYQL qb =
     (case validate qb of
        Some err \<Rightarrow> Some ([], Some err)
      | None \<Rightarrow>
          (let yqlParts = [buildSelectClause qb];
               yqlParts = yqlParts @ [buildFromClause qb]
           in case buildWhereClause qb of
                None \<Rightarrow> None
              | Some whereClause \<Rightarrow>
                  (let yqlParts = (if whereClause \<noteq> [] then yqlParts @ [''where'', whereClause]
                                   else yqlParts @ [''where'', ''true''])
                   in Some (strings_Join yqlParts '' '', None))))"

definition Build :: "QueryBuilderImpl \<Rightarrow> (VespaQuery option \<times> ValidationError option) option" where
  "Build qb =
     (case BuildYQL qb of
        None \<Rightarrow> None
      | Some (yql, Some err) \<Rightarrow> Some (None, Some err)
      | Some (yql, None) \<Rightarrow>
          Some (Some \<lparr>YQL = yql,
                      Ranking = (if ranking qb \<noteq> [] then ranking qb else []),
                      Hits = (if 0 < hits qb then hits qb else 0),
                      Offset = (if 0 < offset qb then offset qb else 0),
                      DefaultIndex = (if defaultIndex qb \<noteq> [] then defaultIndex qb else []),
                      Input = (if 0 < length (inputParams qb) then inputParams qb else []),
                      Query = (if query qb \<noteq> [] then query qb else [])\<rparr>,
                None))"

section \<open>Predicates used to state the properties\<close>

text \<open>A condition tree with no nil interface value in it.\<close>

fun nil_free :: "WhereCondition \<Rightarrow> bool" where
  "nil_free NilCondition = False"
| "nil_free (BooleanCondition l r oper) = (nil_free l \<and> nil_free r)"
| "nil_free (NotCondition c) = nil_free c"
| "nil_free (SameElementCondition fld cs) = list_all nil_free cs"
| "nil_free _ = True"

text \<open>A builder none of whose where conditions and rank conditions holds a nil.\<close>

definition panic_free :: "QueryBuilderImpl \<Rightarrow> bool" where
  "panic_free qb =
     (list_all nil_free (whereConditions qb) \<and>
      (case rankExpression qb of None \<Rightarrow> True | Some r \<Rightarrow> list_all nil_free (conditions r)))"

text \<open>Every key of the input parameters begins with \<^verbatim>\<open>input.query(\<close>.\<close>

definition well_prefixed :: "(string \<times> gvalue) list \<Rightarrow> bool" where
  "well_prefixed m = list_all (\<lambda>kv. strings_HasPrefix (fst kv) ''input.query('') m"

text \<open>
  The renderings that the where clause is assembled from, in order: those of the
  where conditions, then that of the rank expression if one is set.
\<close>

definition fragments :: "QueryBuilderImpl \<Rightarrow> string option list" where
  "fragments qb =
     map ToYQL (whereConditions qb) @
     (case rankExpression qb of None \<Rightarrow> [] | Some r \<Rightarrow> [Rank_ToYQL r])"

definition is_digit :: "char \<Rightarrow> bool" where
  "is_digit c = (c \<in> set ''0123456789'')"

text \<open>
  A text in fixed-point form with exactly six decimal places: an optional minus
  sign, digits, a point, six digits.
\<close>

definition fixed6 :: "string \<Rightarrow> bool" where
  "fixed6 s =
     (let body = (case s of [] \<Rightarrow> [] | c # r \<Rightarrow> if c = CHR ''-'' then r else s);
          k = length body - 7
      in 7 < length body \<and> list_all is_digit (take k body) \<and> body ! k = CHR ''.'' \<and>
         list_all is_digit (drop (Suc k) body))"

text \<open>
  The positional digits of the decimal \<open>0.d\<^sub>1\<dots>d\<^sub>n \<times> 10\<^sup>d\<^sup>p\<close>: those before the
  decimal point (the digits up to position \<open>dp\<close>, filled with zeros; a single
  zero when there is none) and those after it (zeros down to position \<open>dp\<close>,
  then the remaining digits).
\<close>

definition int_digits :: "nat list \<Rightarrow> int \<Rightarrow> nat list" where
  "int_digits d dp =
     (if 0 < dp then take (nat dp) d @ replicate (nat dp - length d) 0 else [0])"

definition frac_digits :: "nat list \<Rightarrow> int \<Rightarrow> nat list" where
  "frac_digits d dp = replicate (nat (- dp)) 0 @ drop (nat dp) d"

text \<open>
  The mantissa of exponent notation: the first digit, then a point and the other
  digits if there are any.
\<close>

definition mantissa :: "nat list \<Rightarrow> string" where
  "mantissa d =
     (case d of
        [] \<Rightarrow> ''0''
      | x # xs \<Rightarrow> digit_char x # (if xs = [] then [] else CHR ''.'' # map digit_char xs))"

text \<open>
  Fixed-point form: an optional minus sign, one or more digits, and possibly a
  point followed by one or more digits; nothing else. Exponent notation: an
  optional minus sign, a digit, possibly a point followed by one or more digits,
  the letter \<^verbatim>\<open>e\<close>, a sign and two or more digits.
\<close>

definition strip_minus :: "string \<Rightarrow> string" where
  "strip_minus s = (case s of [] \<Rightarrow> [] | c # r \<Rightarrow> if c = CHR ''-'' then r else s)"

definition fixed_point :: "string \<Rightarrow> bool" where
  "fixed_point s =
     (let body = strip_minus s;
          ip = takeWhile is_digit body;
          rest = dropWhile is_digit body
      in ip \<noteq> [] \<and>
         (rest = [] \<or>
          (take 1 rest = ''.'' \<and> drop 1 rest \<noteq> [] \<and> list_all is_digit (drop 1 rest))))"

definition exponent_form :: "string \<Rightarrow> bool" where
  "exponent_form s =
     (let body = strip_minus s;
          mant = takeWhile (\<lambda>c. c \<noteq> CHR ''e'') body;
          ex = dropWhile (\<lambda>c. c \<noteq> CHR ''e'') body
      in mant \<noteq> [] \<and> list_all is_digit (take 1 mant) \<and>
         (drop 1 mant = [] \<or>
          (take 1 (drop 1 mant) = ''.'' \<and> drop 2 mant \<noteq> [] \<and> list_all is_digit (drop 2 mant))) \<and>
         take 1 ex = ''e'' \<and>
         (take 1 (drop 1 ex) = ''+'' \<or> take 1 (drop 1 ex) = ''-'') \<and>
         2 \<le> length (drop 2 ex) \<and> list_all is_digit (drop 2 ex))"

text \<open>Reading a decimal numeral back.\<close>

definition digit_val :: "char \<Rightarrow> nat" where
  "digit_val c = length (takeWhile (\<lambda>d. d \<noteq> c) ''0123456789'')"

definition read_nat :: "string \<Rightarrow> nat" where
  "read_nat s = foldl (\<lambda>a c. 10 * a + digit_val c) 0 s"

section \<open>Auxiliary lemmas\<close>

subsection \<open>Strings and numerals\<close>

lemma HasPrefix_single: "strings_HasPrefix (c # s) [q] = (c = q)"
  by (simp add: strings_HasPrefix_def)

lemma ReplaceAll_single:
  "strings_ReplaceAll s [q] new = concat (map (\<lambda>c. if c = q then new else [c]) s)"
  by (induction s) (simp_all add: HasPrefix_single)

lemma escapeString_chars:
  "escapeString s = concat (map (\<lambda>c. if c = quote then [backslash, quote] else [c]) s)"
  by (simp add: escapeString_def ReplaceAll_single)

lemma digit_char_cases: "digit_char n \<in> set ''0123456789''"
  unfolding digit_char_def by (rule nth_mem) simp

lemma is_digit_digit_char: "is_digit (digit_char n)"
  using digit_char_cases by (simp add: is_digit_def)

lemma below_ten_cases:
  "k < 10 \<Longrightarrow> k = 0 \<or> k = 1 \<or> k = 2 \<or> k = 3 \<or> k = 4 \<or> k = 5 \<or> k = 6 \<or> k = 7 \<or> k = 8 \<or> k = (9::nat)"
  by arith

lemma digit_val_digit_char: "digit_val (digit_char n) = n mod 10"
proof -
  have "n mod 10 < 10" by simp
  from below_ten_cases [OF this] show ?thesis
    unfolding digit_char_def digit_val_def by (elim disjE) simp_all
qed

lemma digit_char_zero_iff: "(digit_char n = CHR ''0'') = (n mod 10 = 0)"
proof -
  have "n mod 10 < 10" by simp
  from below_ten_cases [OF this] show ?thesis
    unfolding digit_char_def by (elim disjE) simp_all
qed

lemma digit_char_not_e: "digit_char n \<noteq> CHR ''e''"
  using is_digit_digit_char [of n] by (auto simp: is_digit_def)

lemma fmt_nat_nonempty: "fmt_nat n \<noteq> []"
  by (subst fmt_nat.simps) simp

lemma fmt_nat_digits: "list_all is_digit (fmt_nat n)"
  by (induction n rule: fmt_nat.induct) (subst fmt_nat.simps, simp add: is_digit_digit_char)

lemma read_nat_snoc: "read_nat (s @ [c]) = 10 * read_nat s + digit_val c"
  by (simp add: read_nat_def)

lemma read_nat_fmt_nat: "read_nat (fmt_nat n) = n"
proof (induction n rule: fmt_nat.induct)
  case (1 n)
  show ?case
  proof (cases "n < 10")
    case True
    then show ?thesis
      by (subst fmt_nat.simps) (simp add: read_nat_def digit_val_digit_char)
  next
    case False
    with 1 have "read_nat (fmt_nat (n div 10)) = n div 10" by simp
    with False show ?thesis
      by (subst fmt_nat.simps) (simp add: read_nat_snoc digit_val_digit_char)
  qed
qed

lemma hd_fmt_nat_zero: "(hd (fmt_nat n) = CHR ''0'') = (n = 0)"
proof (induction n rule: fmt_nat.induct)
  case (1 n)
  show ?case
  proof (cases "n < 10")
    case True
    then show ?thesis
      by (subst fmt_nat.simps) (simp add: digit_char_zero_iff)
  next
    case False
    with 1 have "(hd (fmt_nat (n div 10)) = CHR ''0'') = (n div 10 = 0)" by simp
    with False show ?thesis
      by (subst fmt_nat.simps) (simp add: fmt_nat_nonempty)
  qed
qed

lemma hd_fmt_nat_not_minus: "hd (fmt_nat n) \<noteq> CHR ''-''"
proof -
  have "list_all is_digit (fmt_nat n)" by (rule fmt_nat_digits)
  then have "is_digit (hd (fmt_nat n))"
    using fmt_nat_nonempty [of n] by (cases "fmt_nat n") simp_all
  then show ?thesis by (auto simp: is_digit_def)
qed

subsection \<open>Float layouts\<close>

lemma pad6_length: "length (pad6 k) = 6"
  by (simp add: pad6_def)

lemma pad6_digits: "list_all is_digit (pad6 k)"
  by (simp add: pad6_def is_digit_digit_char)

lemma fixed6_unsigned:
  assumes "ip \<noteq> []" "hd ip \<noteq> CHR ''-''" "list_all is_digit ip" "length fp = 6" "list_all is_digit fp"
  shows "fixed6 (ip @ CHR ''.'' # fp)"
proof -
  from assms(1) obtain c r where ip: "ip = c # r" by (cases ip) auto
  with assms(2) have c: "c \<noteq> CHR ''-''" by simp
  show ?thesis
    unfolding fixed6_def Let_def
    using assms c ip by (simp add: nth_append)
qed

lemma fixed6_signed:
  assumes "ip \<noteq> []" "list_all is_digit ip" "length fp = 6" "list_all is_digit fp"
  shows "fixed6 (CHR ''-'' # ip @ CHR ''.'' # fp)"
  unfolding fixed6_def Let_def using assms by (simp add: nth_append)

lemma fixed6_fmt_f: "fixed6 (fmt_f (F64 neg m e))"
  by (cases neg)
     (simp_all add: Let_def fixed6_signed fixed6_unsigned fmt_nat_nonempty fmt_nat_digits
        hd_fmt_nat_not_minus pad6_length pad6_digits)

lemma e_notin_fmtF: "CHR ''e'' \<notin> set (fmtF neg d dp prec)"
  by (auto simp: fmtF_def Let_def digit_char_not_e digit_char_not_e [symmetric])

lemma e_in_fmtE: "CHR ''e'' \<in> set (fmtE neg d dp prec)"
  by (simp add: fmtE_def Let_def)

subsection \<open>The shapes of the float layouts\<close>

lemma digit_char_0: "digit_char 0 = CHR ''0''"
  by (simp add: digit_char_def)

lemma frac_digits_length: "length (frac_digits d dp) = nat (max (int (length d) - dp) 0)"
  by (auto simp: frac_digits_def)

lemma fmtF_fraction:
  "map (\<lambda>i. let j = dp + int i
            in if 0 \<le> j \<and> j < int (length d) then digit_char (d ! nat j) else CHR ''0'')
       [0..<nat (max (int (length d) - dp) 0)]
   = map digit_char (frac_digits d dp)"
proof (rule nth_equalityI)
  show "length (map (\<lambda>i. let j = dp + int i
            in if 0 \<le> j \<and> j < int (length d) then digit_char (d ! nat j) else CHR ''0'')
       [0..<nat (max (int (length d) - dp) 0)]) = length (map digit_char (frac_digits d dp))"
    by (simp add: frac_digits_length)
next
  fix i
  assume "i < length (map (\<lambda>i. let j = dp + int i
            in if 0 \<le> j \<and> j < int (length d) then digit_char (d ! nat j) else CHR ''0'')
       [0..<nat (max (int (length d) - dp) 0)])"
  then have i: "i < nat (max (int (length d) - dp) 0)" by simp
  then have fi: "i < length (frac_digits d dp)" by (simp add: frac_digits_length)
  show "map (\<lambda>i. let j = dp + int i
            in if 0 \<le> j \<and> j < int (length d) then digit_char (d ! nat j) else CHR ''0'')
       [0..<nat (max (int (length d) - dp) 0)] ! i = map digit_char (frac_digits d dp) ! i"
  proof (cases "0 < dp")
    case True
    with i have "nat dp + i < length d" by auto
    moreover from True have "nat (dp + int i) = nat dp + i" by auto
    moreover from True i have "dp + int i < int (length d)" by auto
    ultimately show ?thesis
      using i fi True by (simp add: Let_def frac_digits_def)
  next
    case False
    show ?thesis
    proof (cases "i < nat (- dp)")
      case True
      then have "\<not> 0 \<le> dp + int i" by auto
      with True False i fi show ?thesis
        by (simp add: Let_def frac_digits_def nth_append digit_char_0)
    next
      case f2: False
      with False have "nat (dp + int i) = i - nat (- dp)" by auto
      with False f2 i fi show ?thesis
        by (auto simp: Let_def frac_digits_def nth_append)
    qed
  qed
qed

lemma fmtF_positional:
  "fmtF neg d dp (nat (max (int (length d) - dp) 0)) =
     (if neg then ''-'' else []) @ map digit_char (int_digits d dp) @
     (if frac_digits d dp = [] then [] else CHR ''.'' # map digit_char (frac_digits d dp))"
proof -
  have "(0 < nat (max (int (length d) - dp) 0)) = (frac_digits d dp \<noteq> [])"
    using frac_digits_length [of d dp] by (cases "frac_digits d dp") auto
  then show ?thesis
    unfolding fmtF_def fmtF_fraction
    by (auto simp: int_digits_def digit_char_0)
qed

lemma dot_not_digit: "\<not> is_digit (CHR ''.'')" and e_not_digit: "\<not> is_digit (CHR ''e'')"
  and minus_not_digit: "\<not> is_digit (CHR ''-'')"
  by (simp_all add: is_digit_def)

lemma all_digits_map: "list_all is_digit (map digit_char xs)"
  by (induction xs) (simp_all add: is_digit_digit_char)

lemma takeWhile_all: "list_all P xs \<Longrightarrow> \<not> P c \<Longrightarrow> takeWhile P (xs @ c # r) = xs"
  by (induction xs) simp_all

lemma dropWhile_all: "list_all P xs \<Longrightarrow> \<not> P c \<Longrightarrow> dropWhile P (xs @ c # r) = c # r"
  by (induction xs) simp_all

lemma takeWhile_all_end: "list_all P xs \<Longrightarrow> takeWhile P xs = xs"
  by (induction xs) simp_all

lemma dropWhile_all_end: "list_all P xs \<Longrightarrow> dropWhile P xs = []"
  by (induction xs) simp_all

lemma strip_minus_sign:
  "body \<noteq> [] \<Longrightarrow> hd body \<noteq> CHR ''-'' \<Longrightarrow>
   strip_minus ((if neg then ''-'' else []) @ body) = body"
  by (cases body) (simp_all add: strip_minus_def)

lemma fixed_point_shape:
  assumes "ip \<noteq> []" "list_all is_digit ip" "list_all is_digit fp"
  shows "fixed_point ((if neg then ''-'' else []) @ ip @ (if fp = [] then [] else CHR ''.'' # fp))"
proof -
  let ?body = "ip @ (if fp = [] then [] else CHR ''.'' # fp)"
  from assms(1,2) have hd: "?body \<noteq> []" "hd ?body \<noteq> CHR ''-''"
    by (cases ip; auto simp: is_digit_def)+
  have s: "strip_minus ((if neg then ''-'' else []) @ ?body) = ?body"
    by (rule strip_minus_sign [OF hd])
  show ?thesis
  proof (cases "fp = []")
    case True
    with assms s show ?thesis
      by (simp add: fixed_point_def Let_def takeWhile_all_end dropWhile_all_end list_all_iff)
  next
    case False
    with assms s show ?thesis
      by (simp add: fixed_point_def Let_def takeWhile_all dropWhile_all dot_not_digit)
  qed
qed

lemma int_digits_nonempty: "int_digits d dp \<noteq> []"
  by (auto simp: int_digits_def)

lemma fixed_point_fmtF: "fixed_point (fmtF neg d dp (nat (max (int (length d) - dp) 0)))"
proof -
  have "fixed_point ((if neg then ''-'' else []) @ map digit_char (int_digits d dp) @
      (if map digit_char (frac_digits d dp) = [] then []
       else CHR ''.'' # map digit_char (frac_digits d dp)))"
    by (rule fixed_point_shape) (simp_all add: int_digits_nonempty all_digits_map)
  then show ?thesis by (simp add: fmtF_positional)
qed

lemma fixed_point_no_e: "fixed_point s \<Longrightarrow> CHR ''e'' \<notin> set s"
proof -
  assume a: "fixed_point s"
  let ?b = "strip_minus s"
  have split: "?b = takeWhile is_digit ?b @ dropWhile is_digit ?b" by simp
  from a have rest: "dropWhile is_digit ?b = [] \<or>
      (take 1 (dropWhile is_digit ?b) = ''.'' \<and> list_all is_digit (drop 1 (dropWhile is_digit ?b)))"
    by (auto simp: fixed_point_def Let_def)
  have tw: "CHR ''e'' \<notin> set (takeWhile is_digit ?b)"
    using set_takeWhileD [of "CHR ''e''" is_digit ?b] by (auto simp: e_not_digit)
  have dw: "CHR ''e'' \<notin> set (dropWhile is_digit ?b)"
  proof (cases "dropWhile is_digit ?b")
    case Nil
    show ?thesis unfolding Nil by simp
  next
    case (Cons c r)
    with rest have "c = CHR ''.''" "list_all is_digit r" by auto
    with Cons show ?thesis by (auto simp: list_all_iff e_not_digit)
  qed
  from tw dw have "CHR ''e'' \<notin> set ?b" by (subst split) (simp del: takeWhile_dropWhile_id)
  then show ?thesis
    by (cases s) (auto simp: strip_minus_def split: if_splits)
qed

lemma take1_dropWhile_mem: "take 1 (dropWhile P xs) = [c] \<Longrightarrow> c \<in> set xs"
proof -
  assume a: "take 1 (dropWhile P xs) = [c]"
  then obtain r where "dropWhile P xs = c # r"
    by (cases "dropWhile P xs") simp_all
  then have "c \<in> set (dropWhile P xs)" by simp
  then show ?thesis by (rule set_dropWhileD)
qed

lemma exponent_form_has_e: "exponent_form s \<Longrightarrow> CHR ''e'' \<in> set s"
proof -
  assume a: "exponent_form s"
  then have "take 1 (dropWhile (\<lambda>c. c \<noteq> CHR ''e'') (strip_minus s)) = ''e''"
    by (simp add: exponent_form_def Let_def)
  then have "CHR ''e'' \<in> set (strip_minus s)"
    by (rule take1_dropWhile_mem)
  then show ?thesis
    by (cases s) (auto simp: strip_minus_def split: if_splits)
qed

lemma fmtE_shortest:
  "fmtE neg d dp (length d - 1) =
     (if neg then ''-'' else []) @ mantissa d @
     CHR ''e'' # (if d \<noteq> [] \<and> dp < 1 then CHR ''-'' else CHR ''+'') #
     (let e = (if d = [] then 0 else nat \<bar>dp - 1\<bar>)
      in if e < 10 then [CHR ''0'', digit_char e]
         else if e < 100 then [digit_char (e div 10), digit_char e]
         else [digit_char (e div 100), digit_char (e div 10), digit_char e])"
proof (cases d)
  case Nil
  then show ?thesis by (simp add: fmtE_def mantissa_def Let_def)
next
  case (Cons x xs)
  then show ?thesis
    by (cases xs) (auto simp: fmtE_def mantissa_def Let_def min_def)
qed

lemma fmt_nat_one: "e < 10 \<Longrightarrow> fmt_nat e = [digit_char e]"
  by (subst fmt_nat.simps) simp

lemma fmt_nat_two: "10 \<le> e \<Longrightarrow> e < 100 \<Longrightarrow> fmt_nat e = [digit_char (e div 10), digit_char e]"
proof -
  assume a: "10 \<le> e" "e < 100"
  then have "e div 10 < 10" by auto
  from fmt_nat_one [OF this] a show ?thesis
    by (subst fmt_nat.simps) simp
qed

lemma fmt_nat_three:
  "100 \<le> e \<Longrightarrow> e < 1000 \<Longrightarrow> fmt_nat e = [digit_char (e div 100), digit_char (e div 10), digit_char e]"
proof -
  assume a: "100 \<le> e" "e < 1000"
  then have "10 \<le> e div 10" "e div 10 < 100" by auto
  from fmt_nat_two [OF this] have "fmt_nat (e div 10) = [digit_char (e div 10 div 10), digit_char (e div 10)]" .
  moreover have "e div 10 div 10 = e div 100" by (simp add: div_mult2_eq)
  ultimately show ?thesis using a by (subst fmt_nat.simps) simp
qed

lemma exponent_text:
  "e < 1000 \<Longrightarrow>
   (if e < 10 then [CHR ''0'', digit_char e]
    else if e < 100 then [digit_char (e div 10), digit_char e]
    else [digit_char (e div 100), digit_char (e div 10), digit_char e])
   = (if e < 10 then CHR ''0'' # fmt_nat e else fmt_nat e)"
  by (simp add: fmt_nat_one fmt_nat_two fmt_nat_three)

lemma zero_is_digit: "is_digit (CHR ''0'')"
  by (simp add: is_digit_def)

lemma mantissa_props:
  "mantissa d \<noteq> []" "list_all is_digit (take 1 (mantissa d))"
  "drop 1 (mantissa d) = [] \<or>
     (take 1 (drop 1 (mantissa d)) = ''.'' \<and> drop 2 (mantissa d) \<noteq> [] \<and>
      list_all is_digit (drop 2 (mantissa d)))"
  "list_all (\<lambda>c. c \<noteq> CHR ''e'') (mantissa d)"
  "hd (mantissa d) \<noteq> CHR ''-''"
proof -
  have nd: "digit_char n \<noteq> CHR ''-''" for n
    using is_digit_digit_char [of n] by (auto simp: is_digit_def)
  have ne: "list_all (\<lambda>c. c \<noteq> CHR ''e'') (map digit_char xs)" for xs
    by (induction xs) (simp_all add: digit_char_not_e)
  show "mantissa d \<noteq> []" by (cases d) (simp_all add: mantissa_def)
  show "list_all is_digit (take 1 (mantissa d))"
    by (cases d) (simp_all add: mantissa_def is_digit_digit_char zero_is_digit)
  show "drop 1 (mantissa d) = [] \<or>
     (take 1 (drop 1 (mantissa d)) = ''.'' \<and> drop 2 (mantissa d) \<noteq> [] \<and>
      list_all is_digit (drop 2 (mantissa d)))"
    by (cases d) (simp_all add: mantissa_def all_digits_map)
  show "list_all (\<lambda>c. c \<noteq> CHR ''e'') (mantissa d)"
    by (cases d) (simp_all add: mantissa_def digit_char_not_e ne)
  show "hd (mantissa d) \<noteq> CHR ''-''"
    by (cases d) (simp_all add: mantissa_def nd)
qed

lemma exponent_form_shape:
  assumes "sg = CHR ''+'' \<or> sg = CHR ''-''" "2 \<le> length ds" "list_all is_digit ds"
  shows "exponent_form ((if neg then ''-'' else []) @ mantissa d @ CHR ''e'' # sg # ds)"
proof -
  let ?body = "mantissa d @ CHR ''e'' # sg # ds"
  have s: "strip_minus ((if neg then ''-'' else []) @ ?body) = ?body"
    using mantissa_props(1,5) [of d] by (intro strip_minus_sign) (auto simp: hd_append)
  have tw: "takeWhile (\<lambda>c. c \<noteq> CHR ''e'') ?body = mantissa d"
    by (rule takeWhile_all [OF mantissa_props(4)]) simp
  have dw: "dropWhile (\<lambda>c. c \<noteq> CHR ''e'') ?body = CHR ''e'' # sg # ds"
    by (rule dropWhile_all [OF mantissa_props(4)]) simp
  show ?thesis
    unfolding exponent_form_def Let_def s tw dw
    using assms mantissa_props(1,2,3) [of d] by auto
qed

lemma exponent_form_fmtE: "exponent_form (fmtE neg d dp (length d - 1))"
  unfolding fmtE_shortest Let_def
  by (rule exponent_form_shape) (auto simp: is_digit_digit_char zero_is_digit)

subsection \<open>Loops\<close>

lemma And_loop_foldl: "And_loop r cs = foldl (\<lambda>l c. BooleanCondition l c ''AND'') r cs"
  by (induction cs arbitrary: r) simp_all

lemma Or_loop_foldl: "Or_loop r cs = foldl (\<lambda>l c. BooleanCondition l c ''OR'') r cs"
  by (induction cs arbitrary: r) simp_all

lemma collectYQL_those:
  "collectYQL cs acc = map_option (\<lambda>rs. acc @ filter (\<lambda>s. s \<noteq> []) rs) (those (map ToYQL cs))"
  by (induction cs arbitrary: acc) (auto split: option.splits simp: option.map_comp comp_def)

subsection \<open>Rendering and panics\<close>

lemma nil_free_And_loop: "nil_free (And_loop r cs) = (nil_free r \<and> list_all nil_free cs)"
  by (induction cs arbitrary: r) auto

lemma nil_free_Or_loop: "nil_free (Or_loop r cs) = (nil_free r \<and> list_all nil_free cs)"
  by (induction cs arbitrary: r) auto

lemma nil_free_And: "nil_free (And cs) = (cs \<noteq> [] \<and> list_all nil_free cs)"
  by (cases cs rule: And.cases) (simp_all add: nil_free_And_loop)

lemma nil_free_Or: "nil_free (Or cs) = (cs \<noteq> [] \<and> list_all nil_free cs)"
  by (cases cs rule: Or.cases) (simp_all add: nil_free_Or_loop)

lemma nil_free_leaves:
  "nil_free (Eq f v) \<and> nil_free (NotEq f v) \<and> nil_free (Gt f v) \<and> nil_free (Gte f v)
   \<and> nil_free (Lt f v) \<and> nil_free (Lte f v) \<and> nil_free (In f vs) \<and> nil_free (NotIn f vs)
   \<and> nil_free (Contains f v copts) \<and> nil_free (NotContains f str) \<and> nil_free (Matches f str)
   \<and> nil_free (Between f mn mx) \<and> nil_free (Field_NearestNeighbor f qv n opts)
   \<and> nil_free (UserQuery ix) \<and> nil_free (Custom ex)"
  by (simp add: Eq_def NotEq_def Gt_def Gte_def Lt_def Lte_def In_def NotIn_def Contains_def
      NotContains_def Matches_def Between_def Field_NearestNeighbor_def UserQuery_def Custom_def
      Let_def)

lemma ToYQL_None_iff:
  "(ToYQL c = None) = (\<not> nil_free c)"
  "(collectYQL cs acc = None) = (\<not> list_all nil_free cs)"
  by (induction c and cs acc rule: ToYQL_collectYQL.induct) (auto split: option.splits)

lemma ToYQL_Some_iff: "(\<exists>s. ToYQL c = Some s) = nil_free c"
  using ToYQL_None_iff(1) [of c] by auto

lemma those_None_iff: "(those xs = None) = (None \<in> set xs)"
  by (induction xs) (auto split: option.splits)

lemma those_map_ToYQL_Some_iff: "(\<exists>rs. those (map ToYQL cs) = Some rs) = list_all nil_free cs"
proof -
  have "(those (map ToYQL cs) = None) = (\<not> list_all nil_free cs)"
    using ToYQL_None_iff(2) [of cs "[]"] by (simp add: collectYQL_those)
  then show ?thesis by auto
qed

lemma those_append:
  "those (xs @ ys) =
     (case those xs of None \<Rightarrow> None | Some a \<Rightarrow> map_option (\<lambda>b. a @ b) (those ys))"
  by (induction xs) (cases "those ys"; auto split: option.splits)+

lemma Join_nonempty: "fs \<noteq> [] \<Longrightarrow> hd fs \<noteq> [] \<Longrightarrow> strings_Join fs sep \<noteq> []"
  by (induction fs sep rule: strings_Join.induct) simp_all

lemma hd_filter_nonempty: "filter (\<lambda>s. s \<noteq> []) rs \<noteq> [] \<Longrightarrow> hd (filter (\<lambda>s. s \<noteq> []) rs) \<noteq> []"
  by (induction rs) (auto split: if_splits)

lemma Join_filter_nonempty:
  "(strings_Join (filter (\<lambda>s. s \<noteq> []) rs) sep = []) = (filter (\<lambda>s. s \<noteq> []) rs = [])"
  using Join_nonempty [OF _ hd_filter_nonempty, of rs sep] by auto

lemma Rank_ToYQL_those:
  "Rank_ToYQL r =
     map_option (\<lambda>rs. if filter (\<lambda>s. s \<noteq> []) rs = [] then []
                      else ''rank('' @ strings_Join (filter (\<lambda>s. s \<noteq> []) rs) '', '' @ '')'')
       (those (map ToYQL (conditions r)))"
  by (cases "those (map ToYQL (conditions r))")
     (auto simp: Rank_ToYQL_def collectYQL_those)

lemma buildWhereClause_those:
  "buildWhereClause qb =
     map_option (\<lambda>rs. strings_Join (filter (\<lambda>s. s \<noteq> []) rs) '' and '') (those (fragments qb))"
  by (cases "those (map ToYQL (whereConditions qb))"; cases "rankExpression qb")
     (auto simp: buildWhereClause_def fragments_def collectYQL_those those_append
           split: option.splits)

lemma those_fragments_Some_iff: "(\<exists>rs. those (fragments qb) = Some rs) = panic_free qb"
proof (cases "rankExpression qb")
  case None
  then show ?thesis
    using those_map_ToYQL_Some_iff [of "whereConditions qb"]
    by (simp add: fragments_def panic_free_def)
next
  case (Some r)
  have "(\<exists>y. Rank_ToYQL r = Some y) = list_all nil_free (conditions r)"
    using those_map_ToYQL_Some_iff [of "conditions r"] by (auto simp: Rank_ToYQL_those)
  with Some show ?thesis
    using those_map_ToYQL_Some_iff [of "whereConditions qb"]
    by (auto simp: fragments_def panic_free_def those_append split: option.splits)
qed

lemma BuildYQL_valid:
  "validate qb = None \<Longrightarrow>
   BuildYQL qb =
     map_option
       (\<lambda>rs. (buildSelectClause qb @ '' '' @ buildFromClause qb @ '' where '' @
                (if filter (\<lambda>s. s \<noteq> []) rs = [] then ''true''
                 else strings_Join (filter (\<lambda>s. s \<noteq> []) rs) '' and ''), None))
       (those (fragments qb))"
  by (cases "those (fragments qb)")
     (simp_all add: BuildYQL_def buildWhereClause_those Let_def Join_filter_nonempty)

lemma those_drop_empty:
  assumes "ToYQL c = Some []"
  shows "map_option (filter (\<lambda>s. s \<noteq> [])) (those (map ToYQL (xs @ c # ys))) =
         map_option (filter (\<lambda>s. s \<noteq> [])) (those (map ToYQL (xs @ ys)))"
  using assms
  by (cases "those (map ToYQL xs)"; cases "those (map ToYQL ys)") (simp_all add: those_append)

lemma collectYQL_drop_empty:
  "ToYQL c = Some [] \<Longrightarrow> collectYQL (xs @ c # ys) acc = collectYQL (xs @ ys) acc"
proof -
  assume a: "ToYQL c = Some []"
  have "collectYQL zs acc =
      map_option (\<lambda>fs. acc @ fs) (map_option (filter (\<lambda>s. s \<noteq> [])) (those (map ToYQL zs)))" for zs
    by (simp add: collectYQL_those option.map_comp comp_def)
  with those_drop_empty [OF a] show ?thesis by simp
qed

subsection \<open>Validation and building\<close>

lemma validate_keys_None_iff: "(validate_keys m = None) = well_prefixed m"
  by (induction m rule: validate_keys.induct) (simp_all add: well_prefixed_def)

lemma validate_keys_Some:
  "validate_keys m = Some err \<Longrightarrow> ErrField err = ''input''"
  by (induction m rule: validate_keys.induct) (auto split: if_splits)

lemma validate_None_iff:
  "(validate qb = None) = (sources qb \<noteq> [] \<and> well_prefixed (inputParams qb))"
  by (simp add: validate_def validate_keys_None_iff)

lemma BuildYQL_invalid: "validate qb = Some err \<Longrightarrow> BuildYQL qb = Some ([], Some err)"
  by (simp add: BuildYQL_def)

lemma Build_invalid: "validate qb = Some err \<Longrightarrow> Build qb = Some (None, Some err)"
  by (simp add: Build_def BuildYQL_invalid)

lemma Build_cases:
  "(sources qb = [] \<longrightarrow>
      BuildYQL qb = Some ([], Some \<lparr>ErrField = ''sources'',
                                   ErrMessage = ''at least one source must be specified''\<rparr>)
      \<and> Build qb = Some (None, Some \<lparr>ErrField = ''sources'',
                                      ErrMessage = ''at least one source must be specified''\<rparr>))
   \<and> (sources qb \<noteq> [] \<and> \<not> well_prefixed (inputParams qb) \<longrightarrow>
      (\<exists>msg. BuildYQL qb = Some ([], Some \<lparr>ErrField = ''input'', ErrMessage = msg\<rparr>)
           \<and> Build qb = Some (None, Some \<lparr>ErrField = ''input'', ErrMessage = msg\<rparr>)))
   \<and> (sources qb \<noteq> [] \<and> well_prefixed (inputParams qb) \<and> panic_free qb \<longrightarrow>
      (\<exists>yql q. yql \<noteq> [] \<and> BuildYQL qb = Some (yql, None)
             \<and> Build qb = Some (Some q, None) \<and> YQL q = yql))
   \<and> (sources qb \<noteq> [] \<and> well_prefixed (inputParams qb) \<and> \<not> panic_free qb \<longrightarrow>
      BuildYQL qb = None \<and> Build qb = None)"
proof (intro conjI impI)
  assume "sources qb = []"
  then have v: "validate qb = Some \<lparr>ErrField = ''sources'',
      ErrMessage = ''at least one source must be specified''\<rparr>"
    by (simp add: validate_def)
  from BuildYQL_invalid [OF v]
  show "BuildYQL qb = Some ([], Some \<lparr>ErrField = ''sources'',
      ErrMessage = ''at least one source must be specified''\<rparr>)" .
  from Build_invalid [OF v]
  show "Build qb = Some (None, Some \<lparr>ErrField = ''sources'',
      ErrMessage = ''at least one source must be specified''\<rparr>)" .
next
  assume a: "sources qb \<noteq> [] \<and> \<not> well_prefixed (inputParams qb)"
  then have "validate_keys (inputParams qb) \<noteq> None"
    by (simp add: validate_keys_None_iff)
  then obtain err where e: "validate_keys (inputParams qb) = Some err" by auto
  from validate_keys_Some [OF e] have "err = \<lparr>ErrField = ''input'', ErrMessage = ErrMessage err\<rparr>"
    by simp
  moreover from a e have "validate qb = Some err" by (simp add: validate_def)
  ultimately have v: "validate qb = Some \<lparr>ErrField = ''input'', ErrMessage = ErrMessage err\<rparr>"
    by simp
  from BuildYQL_invalid [OF v] Build_invalid [OF v]
  show "\<exists>msg. BuildYQL qb = Some ([], Some \<lparr>ErrField = ''input'', ErrMessage = msg\<rparr>)
           \<and> Build qb = Some (None, Some \<lparr>ErrField = ''input'', ErrMessage = msg\<rparr>)"
    by blast
next
  assume a: "sources qb \<noteq> [] \<and> well_prefixed (inputParams qb) \<and> panic_free qb"
  then have v: "validate qb = None" by (simp add: validate_None_iff)
  from a obtain rs where rs: "those (fragments qb) = Some rs"
    using those_fragments_Some_iff [of qb] by auto
  from BuildYQL_valid [OF v] rs obtain yql where y: "BuildYQL qb = Some (yql, None)" "yql \<noteq> []"
    by (auto simp: buildSelectClause_def)
  then show "\<exists>yql q. yql \<noteq> [] \<and> BuildYQL qb = Some (yql, None)
             \<and> Build qb = Some (Some q, None) \<and> YQL q = yql"
    by (simp add: Build_def)
next
  assume a: "sources qb \<noteq> [] \<and> well_prefixed (inputParams qb) \<and> \<not> panic_free qb"
  then have v: "validate qb = None" by (simp add: validate_None_iff)
  from a have "those (fragments qb) = None"
    using those_fragments_Some_iff [of qb] by auto
  with BuildYQL_valid [OF v] show "BuildYQL qb = None" by simp
  then show "Build qb = None" by (simp add: Build_def)
qed

lemma Rank_ToYQL_Some_iff: "(\<exists>s. Rank_ToYQL r = Some s) = list_all nil_free (conditions r)"
  using those_map_ToYQL_Some_iff [of "conditions r"] by (auto simp: Rank_ToYQL_those)

lemma BuildYQL_Some_iff: "(\<exists>y. BuildYQL qb = Some y) = (validate qb = None \<longrightarrow> panic_free qb)"
proof (cases "validate qb")
  case None
  from BuildYQL_valid [OF None] those_fragments_Some_iff [of qb] None show ?thesis
    by (cases "those (fragments qb)") auto
next
  case (Some err)
  from BuildYQL_invalid [OF Some] Some show ?thesis by simp
qed

lemma Build_Some_iff: "(\<exists>y. Build qb = Some y) = (validate qb = None \<longrightarrow> panic_free qb)"
proof -
  have "(Build qb = None) = (BuildYQL qb = None)"
    by (auto simp: Build_def split: option.splits prod.splits)
  then have "(Build qb \<noteq> None) = (BuildYQL qb \<noteq> None)" by simp
  then show ?thesis
    using BuildYQL_Some_iff [of qb] unfolding not_None_eq by simp
qed

lemma those_eq_Some_iff: "(those xs = Some rs) = (xs = map Some rs)"
  by (induction xs arbitrary: rs) (auto split: option.splits)

lemma foldl_Where:
  "whereConditions (foldl Where qb cs) = whereConditions qb @ cs"
  "rankExpression (foldl Where qb cs) = rankExpression qb"
  "validate (foldl Where qb cs) = validate qb"
  by (induction cs arbitrary: qb) (simp_all add: Where_def validate_def)

section \<open>The claims\<close>

text \<open>
  C1. For every field name, \<open>Eq\<close> on a string value renders as
  \<^verbatim>\<open>(field contains 'v')\<close> and \<open>NotEq\<close> on a string value as
  \<^verbatim>\<open>!(field contains 'v')\<close>, the value quoted and escaped by the value
  formatter; on any value that is not a string (nil, integer, float, boolean,
  or any other kind) they render as \<^verbatim>\<open>(field = value)\<close> and
  \<^verbatim>\<open>(field != value)\<close>, the value formatted by \<open>formatValue\<close>.
\<close>

theorem C1_eq_noteq_rendering:
  "ToYQL (Eq (Field' f) v) =
     Some (case v of
             VString s \<Rightarrow> ''('' @ f @ '' contains '' @ [quote] @ escapeString s @ [quote] @ '')''
           | _ \<Rightarrow> ''('' @ f @ '' = '' @ formatValue v @ '')'')
   \<and> ToYQL (NotEq (Field' f) v) =
     Some (case v of
             VString s \<Rightarrow> ''!('' @ f @ '' contains '' @ [quote] @ escapeString s @ [quote] @ '')''
           | _ \<Rightarrow> ''('' @ f @ '' != '' @ formatValue v @ '')'')"
  by (cases v) (simp_all add: Eq_def NotEq_def Field'_def FieldCondition_ToYQL_def EQ_def NEQ_def
      isString_def)

text \<open>
  C2. \<open>And\<close> and \<open>Or\<close> of no condition are the nil condition (no node is built);
  of one condition they are that condition itself; of two or more they are the
  left fold of \<open>BooleanCondition\<close> over the list, so that \<open>And [A, B, C]\<close> renders
  as \<^verbatim>\<open>((A AND B) AND C)\<close>, with the operator in upper case.
\<close>

theorem C2_and_or_left_fold:
  "And [] = NilCondition \<and> Or [] = NilCondition
   \<and> And [c] = c \<and> Or [c] = c
   \<and> And (a # b # cs) = foldl (\<lambda>l r. BooleanCondition l r ''AND'') a (b # cs)
   \<and> Or (a # b # cs) = foldl (\<lambda>l r. BooleanCondition l r ''OR'') a (b # cs)
   \<and> (ToYQL A = Some x \<and> ToYQL B = Some y \<and> ToYQL C = Some z \<longrightarrow>
        ToYQL (And [A, B, C]) = Some (''(('' @ x @ '' AND '' @ y @ '') AND '' @ z @ '')'')
        \<and> ToYQL (Or [A, B, C]) = Some (''(('' @ x @ '' OR '' @ y @ '') OR '' @ z @ '')''))"
  by (simp add: And_loop_foldl Or_loop_foldl)

theorem C2_and_or_left_fold_witness:
  "ToYQL (Custom ''A'') = Some ''A'' \<and> ToYQL (Custom ''B'') = Some ''B''
   \<and> ToYQL (Custom ''C'') = Some ''C''
   \<and> ToYQL (And [Custom ''A'', Custom ''B'', Custom ''C'']) = Some ''((A AND B) AND C)''
   \<and> ToYQL (Or [Custom ''A'', Custom ''B'', Custom ''C'']) = Some ''((A OR B) OR C)''"
  using C2_and_or_left_fold [of "Custom ''A''" "Custom ''A''" "Custom ''B''" "[Custom ''C'']"
      "Custom ''A''" "''A''" "Custom ''B''" "''B''" "Custom ''C''" "''C''"]
  by (simp add: Custom_def)

text \<open>
  C3, the claim as stated fails: a distance threshold that is set to an infinity
  is rendered as \<^verbatim>\<open>+Inf\<close>, which has no decimal places at all.
\<close>

theorem C3_infinite_threshold_counterexample:
  "ToYQL (Field_NearestNeighbor (Field' ''embedding'') ''query_vector'' 1000
            [WithThreshold (F64Inf False)])
     = Some ''({targetHits:1000,distanceThreshold:+Inf}nearestNeighbor(embedding, query_vector))''
   \<and> \<not> fixed6 ''+Inf''"
  by (simp add: Field_NearestNeighbor_def Field'_def WithThreshold_def NearestNeighbor_ToYQL_def
      fmt_d_def fmt_nat.simps digit_char_def fixed6_def)

text \<open>
  C3, amended. Every \<open>NearestNeighbor\<close> node renders as
  \<^verbatim>\<open>({params}nearestNeighbor(field, vectorRef))\<close>, the parameters in the order
  targetHits, then the label if it is not empty, then the distance threshold if
  it is set, then the approximate flag if it is set; a parameter that is not set
  leaves no trace. A finite distance threshold is rendered in fixed-point form
  with exactly six decimal places, as 0.8 is (\<^verbatim>\<open>0.800000\<close>).
\<close>

theorem C3_nearest_neighbor_rendering:
  "ToYQL (NearestNeighbor fld qv n label thr approx) =
     Some (''({targetHits:'' @ fmt_d n @
           (if label = [] then [] else '',label:'' @ [quote] @ label @ [quote]) @
           (case thr of None \<Rightarrow> [] | Some t \<Rightarrow> '',distanceThreshold:'' @ fmt_f t) @
           (case approx of None \<Rightarrow> []
            | Some a \<Rightarrow> '',approximate:'' @ (if a then ''true'' else ''false'')) @
           ''}nearestNeighbor('' @ fld @ '', '' @ qv @ ''))'')
   \<and> fixed6 (fmt_f (F64 neg m e))
   \<and> fmt_f (F64 False 3602879701896397 (- 52)) = ''0.800000''
   \<and> ToYQL (Field_NearestNeighbor (Field' ''embedding'') ''query_vector'' 1000
              [WithLabel ''main_query''])
     = Some (''({targetHits:1000,label:'' @ [quote] @ ''main_query'' @ [quote] @
             ''}nearestNeighbor(embedding, query_vector))'')"
proof -
  have render: "ToYQL (NearestNeighbor fld qv n label thr approx) =
     Some (''({targetHits:'' @ fmt_d n @
           (if label = [] then [] else '',label:'' @ [quote] @ label @ [quote]) @
           (case thr of None \<Rightarrow> [] | Some t \<Rightarrow> '',distanceThreshold:'' @ fmt_f t) @
           (case approx of None \<Rightarrow> []
            | Some a \<Rightarrow> '',approximate:'' @ (if a then ''true'' else ''false'')) @
           ''}nearestNeighbor('' @ fld @ '', '' @ qv @ ''))'')"
    by (cases thr; cases approx) (simp_all add: NearestNeighbor_ToYQL_def fmt_t_def)
  have eight: "fmt_f (F64 False 3602879701896397 (- 52)) = ''0.800000''"
    by (simp add: micro_units_def Let_def pad6_def digit_char_def fmt_nat.simps)
  have example: "ToYQL (Field_NearestNeighbor (Field' ''embedding'') ''query_vector'' 1000
              [WithLabel ''main_query''])
     = Some (''({targetHits:1000,label:'' @ [quote] @ ''main_query'' @ [quote] @
             ''}nearestNeighbor(embedding, query_vector))'')"
    by (simp add: Field_NearestNeighbor_def Field'_def WithLabel_def NearestNeighbor_ToYQL_def
        fmt_d_def fmt_nat.simps digit_char_def)
  from render fixed6_fmt_f eight example show ?thesis by blast
qed

text \<open>
  C4. \<open>Between\<close> renders as \<^verbatim>\<open>((field >= min) and (field <= max))\<close> with the
  keyword in lower case; \<open>And\<close> of the same two comparisons renders the same text
  with the keyword in upper case, and differs in nothing else.
\<close>

theorem C4_between_lowercase_and:
  "ToYQL (Between (Field' f) mn mx) =
     Some (''(('' @ f @ '' >= '' @ formatValue mn @ '') '' @ ''and'' @
           '' ('' @ f @ '' <= '' @ formatValue mx @ ''))'')
   \<and> ToYQL (And [Gte (Field' f) mn, Lte (Field' f) mx]) =
     Some (''(('' @ f @ '' >= '' @ formatValue mn @ '') '' @ ''AND'' @
           '' ('' @ f @ '' <= '' @ formatValue mx @ ''))'')"
  by (simp add: Between_def Gte_def Lte_def Field'_def RangeCondition_ToYQL_def
      FieldCondition_ToYQL_def EQ_def NEQ_def GT_def GTE_def LT_def LTE_def)

text \<open>
  C5, the claim as stated fails: a builder with a source passes validation, but
  when one of its where conditions is the nil condition that \<open>And\<close> returns for
  no argument, rendering panics: no where clause is built and no query comes
  out, with \<^verbatim>\<open>where true\<close> or without.
\<close>

theorem C5_validated_nil_counterexample:
  "validate (Where (Where (From NewQueryBuilder [''products''])
               (Gte (Field' ''price'') (VInt 10))) (And [])) = None
   \<and> buildWhereClause (Where (Where (From NewQueryBuilder [''products''])
               (Gte (Field' ''price'') (VInt 10))) (And [])) = None
   \<and> BuildYQL (Where (Where (From NewQueryBuilder [''products''])
               (Gte (Field' ''price'') (VInt 10))) (And [])) = None"
  by (simp add: BuildYQL_def validate_def buildWhereClause_def Where_def From_def
      NewQueryBuilder_def Gte_def Field'_def)

text \<open>
  C5, amended. \<open>Where\<close> appends to the where conditions, so that their order is
  the order of insertion, and \<open>Rank\<close> sets the rank expression. On every builder
  that passes validation and holds no nil condition, the where clause is built
  from the renderings of the where conditions in that order, followed by that
  of the rank expression if one is set: the empty renderings are dropped and the
  others joined with \<^verbatim>\<open> and \<close>; the query ends in \<^verbatim>\<open>where\<close> and that text, or
  in \<^verbatim>\<open>where true\<close> when no fragment is left. On a builder that passes
  validation and holds a nil condition, rendering panics and no clause is built.
\<close>

theorem C5_where_clause_assembly:
  "whereConditions (foldl Where qb cs) = whereConditions qb @ cs
   \<and> rankExpression (foldl Where qb cs) = rankExpression qb
   \<and> validate (foldl Where qb cs) = validate qb
   \<and> whereConditions (Rank qb re) = whereConditions qb \<and> rankExpression (Rank qb re) = re
   \<and> buildWhereClause qb =
     map_option (\<lambda>rs. strings_Join (filter (\<lambda>s. s \<noteq> []) rs) '' and '') (those (fragments qb))
   \<and> (\<exists>rs. those (fragments qb) = Some rs) = panic_free qb
   \<and> (validate qb = None \<longrightarrow>
        BuildYQL qb =
          map_option
            (\<lambda>rs. (buildSelectClause qb @ '' '' @ buildFromClause qb @ '' where '' @
                     (if filter (\<lambda>s. s \<noteq> []) rs = [] then ''true''
                      else strings_Join (filter (\<lambda>s. s \<noteq> []) rs) '' and ''), None))
            (those (fragments qb)))
   \<and> (validate qb = None \<and> panic_free qb \<longrightarrow>
        (\<exists>rs. fragments qb = map Some rs
           \<and> buildWhereClause qb = Some (strings_Join (filter (\<lambda>s. s \<noteq> []) rs) '' and '')
           \<and> BuildYQL qb =
               Some (buildSelectClause qb @ '' '' @ buildFromClause qb @ '' where '' @
                     (if filter (\<lambda>s. s \<noteq> []) rs = [] then ''true''
                      else strings_Join (filter (\<lambda>s. s \<noteq> []) rs) '' and ''), None)))
   \<and> (validate qb = None \<and> \<not> panic_free qb \<longrightarrow>
        buildWhereClause qb = None \<and> BuildYQL qb = None)"
proof -
  have setters: "whereConditions (Rank qb re) = whereConditions qb" "rankExpression (Rank qb re) = re"
    by (simp_all add: Rank_def)
  have good: "validate qb = None \<and> panic_free qb \<longrightarrow>
        (\<exists>rs. fragments qb = map Some rs
           \<and> buildWhereClause qb = Some (strings_Join (filter (\<lambda>s. s \<noteq> []) rs) '' and '')
           \<and> BuildYQL qb =
               Some (buildSelectClause qb @ '' '' @ buildFromClause qb @ '' where '' @
                     (if filter (\<lambda>s. s \<noteq> []) rs = [] then ''true''
                      else strings_Join (filter (\<lambda>s. s \<noteq> []) rs) '' and ''), None))"
  proof (intro impI)
    assume a: "validate qb = None \<and> panic_free qb"
    then obtain rs where rs: "those (fragments qb) = Some rs"
      using those_fragments_Some_iff [of qb] by auto
    then have "fragments qb = map Some rs" by (simp add: those_eq_Some_iff)
    moreover from rs have "buildWhereClause qb =
        Some (strings_Join (filter (\<lambda>s. s \<noteq> []) rs) '' and '')"
      by (simp add: buildWhereClause_those)
    moreover from a rs have "BuildYQL qb =
               Some (buildSelectClause qb @ '' '' @ buildFromClause qb @ '' where '' @
                     (if filter (\<lambda>s. s \<noteq> []) rs = [] then ''true''
                      else strings_Join (filter (\<lambda>s. s \<noteq> []) rs) '' and ''), None)"
      using BuildYQL_valid [of qb] by simp
    ultimately show "\<exists>rs. fragments qb = map Some rs
           \<and> buildWhereClause qb = Some (strings_Join (filter (\<lambda>s. s \<noteq> []) rs) '' and '')
           \<and> BuildYQL qb =
               Some (buildSelectClause qb @ '' '' @ buildFromClause qb @ '' where '' @
                     (if filter (\<lambda>s. s \<noteq> []) rs = [] then ''true''
                      else strings_Join (filter (\<lambda>s. s \<noteq> []) rs) '' and ''), None)"
      by blast
  qed
  have bad: "validate qb = None \<and> \<not> panic_free qb \<longrightarrow>
        buildWhereClause qb = None \<and> BuildYQL qb = None"
  proof (intro impI)
    assume a: "validate qb = None \<and> \<not> panic_free qb"
    then have "those (fragments qb) = None"
      using those_fragments_Some_iff [of qb] by auto
    with a show "buildWhereClause qb = None \<and> BuildYQL qb = None"
      using BuildYQL_valid [of qb] by (simp add: buildWhereClause_those)
  qed
  from foldl_Where [of qb cs] setters buildWhereClause_those [of qb]
    those_fragments_Some_iff [of qb] BuildYQL_valid [of qb] good bad
  show ?thesis by blast
qed

theorem C5_where_clause_assembly_witness:
  "validate (Rank (foldl Where (From NewQueryBuilder [''products''])
                [Custom ''a'', ContainsSameElement (Field' ''sizes'') [], Custom ''b''])
             (Some (AddCondition NewRank (UserQuery [])))) = None
   \<and> panic_free (Rank (foldl Where (From NewQueryBuilder [''products''])
                [Custom ''a'', ContainsSameElement (Field' ''sizes'') [], Custom ''b''])
             (Some (AddCondition NewRank (UserQuery []))))
   \<and> fragments (Rank (foldl Where (From NewQueryBuilder [''products''])
                [Custom ''a'', ContainsSameElement (Field' ''sizes'') [], Custom ''b''])
             (Some (AddCondition NewRank (UserQuery []))))
      = [Some ''a'', Some [], Some ''b'', Some ''rank(userQuery())'']
   \<and> BuildYQL (Rank (foldl Where (From NewQueryBuilder [''products''])
                [Custom ''a'', ContainsSameElement (Field' ''sizes'') [], Custom ''b''])
             (Some (AddCondition NewRank (UserQuery []))))
      = Some (''select * from sources products where a and b and rank(userQuery())'', None)
   \<and> validate (Where (From NewQueryBuilder [''products'']) (Custom [])) = None
   \<and> panic_free (Where (From NewQueryBuilder [''products'']) (Custom []))
   \<and> BuildYQL (Where (From NewQueryBuilder [''products'']) (Custom []))
      = Some (''select * from sources products where true'', None)
   \<and> validate (Rank (From NewQueryBuilder [''products''])
               (Some (AddCondition NewRank (Or [])))) = None
   \<and> \<not> panic_free (Rank (From NewQueryBuilder [''products''])
               (Some (AddCondition NewRank (Or []))))
   \<and> BuildYQL (Rank (From NewQueryBuilder [''products''])
               (Some (AddCondition NewRank (Or [])))) = None"
  using C5_where_clause_assembly [where qb = "Rank (foldl Where (From NewQueryBuilder [''products''])
                [Custom ''a'', ContainsSameElement (Field' ''sizes'') [], Custom ''b''])
             (Some (AddCondition NewRank (UserQuery [])))" and cs = "[]" and re = None]
        C5_where_clause_assembly [where qb = "Where (From NewQueryBuilder [''products'']) (Custom [])"
             and cs = "[]" and re = None]
        C5_where_clause_assembly [where qb = "Rank (From NewQueryBuilder [''products''])
               (Some (AddCondition NewRank (Or [])))" and cs = "[]" and re = None]
  by (simp add: Rank_def Where_def From_def NewQueryBuilder_def ContainsSameElement_def Field'_def
      AddCondition_def NewRank_def UserQuery_def Custom_def fragments_def panic_free_def
      buildSelectClause_def buildFromClause_def validate_def Rank_ToYQL_def
      UserQueryFeature_ToYQL_def)

text \<open>
  C6, the claim as stated fails: with a source, no input parameter and the nil
  condition that \<open>Or\<close> returns for no argument, the build does not succeed; it
  panics.
\<close>

theorem C6_nil_condition_counterexample:
  "sources (Where (From NewQueryBuilder [''products'']) (Or [])) = [''products'']
   \<and> inputParams (Where (From NewQueryBuilder [''products'']) (Or [])) = []
   \<and> Build (Where (From NewQueryBuilder [''products'']) (Or [])) = None
   \<and> BuildYQL (Where (From NewQueryBuilder [''products'']) (Or [])) = None"
  by (simp add: Build_def BuildYQL_def validate_def buildWhereClause_def Where_def From_def
      NewQueryBuilder_def)

text \<open>
  C6, amended. \<open>BuildYQL\<close> and \<open>Build\<close> return an error exactly when no source
  was added (the error names the field \<^verbatim>\<open>sources\<close>) or some key of the input
  parameters does not begin with \<^verbatim>\<open>input.query(\<close> (it names \<^verbatim>\<open>input\<close>); with
  the error \<open>BuildYQL\<close> returns the empty string and \<open>Build\<close> no query. With a
  source and well-prefixed keys no error is returned: the build yields a query
  when no condition is nil, and panics when one is.
\<close>

theorem C6_build_validation:
  "(\<exists>s e. BuildYQL qb = Some (s, Some e)) = (sources qb = [] \<or> \<not> well_prefixed (inputParams qb))
   \<and> (\<exists>q e. Build qb = Some (q, Some e)) = (sources qb = [] \<or> \<not> well_prefixed (inputParams qb))
   \<and> (sources qb = [] \<longrightarrow>
      BuildYQL qb = Some ([], Some \<lparr>ErrField = ''sources'',
                                   ErrMessage = ''at least one source must be specified''\<rparr>)
      \<and> Build qb = Some (None, Some \<lparr>ErrField = ''sources'',
                                      ErrMessage = ''at least one source must be specified''\<rparr>))
   \<and> (sources qb \<noteq> [] \<and> \<not> well_prefixed (inputParams qb) \<longrightarrow>
      (\<exists>msg. BuildYQL qb = Some ([], Some \<lparr>ErrField = ''input'', ErrMessage = msg\<rparr>)
           \<and> Build qb = Some (None, Some \<lparr>ErrField = ''input'', ErrMessage = msg\<rparr>)))
   \<and> (sources qb \<noteq> [] \<and> well_prefixed (inputParams qb) \<and> panic_free qb \<longrightarrow>
      (\<exists>yql q. yql \<noteq> [] \<and> BuildYQL qb = Some (yql, None)
             \<and> Build qb = Some (Some q, None) \<and> YQL q = yql))
   \<and> (sources qb \<noteq> [] \<and> well_prefixed (inputParams qb) \<and> \<not> panic_free qb \<longrightarrow>
      BuildYQL qb = None \<and> Build qb = None)"
proof -
  note cases = Build_cases [of qb]
  have iff1: "(\<exists>s e. BuildYQL qb = Some (s, Some e)) =
      (sources qb = [] \<or> \<not> well_prefixed (inputParams qb))"
    using cases
    by (cases "sources qb = []"; cases "well_prefixed (inputParams qb)"; cases "panic_free qb")
       auto
  have iff2: "(\<exists>q e. Build qb = Some (q, Some e)) =
      (sources qb = [] \<or> \<not> well_prefixed (inputParams qb))"
    using cases
    by (cases "sources qb = []"; cases "well_prefixed (inputParams qb)"; cases "panic_free qb")
       auto
  from iff1 iff2 cases show ?thesis by blast
qed

theorem C6_build_validation_witness:
  "sources NewQueryBuilder = []
   \<and> BuildYQL NewQueryBuilder =
       Some ([], Some \<lparr>ErrField = ''sources'',
                       ErrMessage = ''at least one source must be specified''\<rparr>)
   \<and> Build NewQueryBuilder =
       Some (None, Some \<lparr>ErrField = ''sources'',
                         ErrMessage = ''at least one source must be specified''\<rparr>)
   \<and> \<not> well_prefixed (inputParams (WithInput (From NewQueryBuilder [''products''])
                                       ''invalid_key'' (VSlice [VInt 1, VInt 2, VInt 3])))
   \<and> Build (WithInput (From NewQueryBuilder [''products''])
              ''invalid_key'' (VSlice [VInt 1, VInt 2, VInt 3])) =
       Some (None, Some \<lparr>ErrField = ''input'',
                         ErrMessage = ''input parameter key 'invalid_key' should start with 'input.query('' @ [CHR 0x27]\<rparr>)
   \<and> well_prefixed (inputParams (WithHits (WithRanking (WithInput (Where (From NewQueryBuilder [''products''])
                 (Gte (Field' ''price'') (VInt 0))) ''input.query(q)'' (VSlice [VInt 1]))
               ''hybrid'') 20))
   \<and> panic_free (WithHits (WithRanking (WithInput (Where (From NewQueryBuilder [''products''])
                 (Gte (Field' ''price'') (VInt 0))) ''input.query(q)'' (VSlice [VInt 1]))
               ''hybrid'') 20)
   \<and> Build (WithHits (WithRanking (WithInput (Where (From NewQueryBuilder [''products''])
                 (Gte (Field' ''price'') (VInt 0))) ''input.query(q)'' (VSlice [VInt 1]))
               ''hybrid'') 20) =
       Some (Some \<lparr>YQL = ''select * from sources products where (price >= 0)'',
                   Ranking = ''hybrid'', Hits = 20, Offset = 0, DefaultIndex = [],
                   Input = [(''input.query(q)'', VSlice [VInt 1])], Query = []\<rparr>, None)
   \<and> \<not> panic_free (Where (From NewQueryBuilder [''products'']) (And []))
   \<and> Build (Where (From NewQueryBuilder [''products'']) (And [])) = None"
  using C6_build_validation [of NewQueryBuilder]
    C6_build_validation [of "WithInput (From NewQueryBuilder [''products''])
              ''invalid_key'' (VSlice [VInt 1, VInt 2, VInt 3])"]
    C6_build_validation [of "WithHits (WithRanking (WithInput (Where (From NewQueryBuilder [''products''])
                 (Gte (Field' ''price'') (VInt 0))) ''input.query(q)'' (VSlice [VInt 1]))
               ''hybrid'') 20"]
    C6_build_validation [of "Where (From NewQueryBuilder [''products'']) (And [])"]
  by (simp add: Build_def BuildYQL_def validate_def buildWhereClause_def buildSelectClause_def
      buildFromClause_def Where_def From_def WithInput_def WithRanking_def WithHits_def
      NewQueryBuilder_def well_prefixed_def panic_free_def strings_HasPrefix_def Gte_def
      Field'_def FieldCondition_ToYQL_def EQ_def NEQ_def GT_def GTE_def fmt_d_def
      fmt_nat.simps digit_char_def quote_def)

text \<open>
  C7, the claim as stated fails: an input that already holds the escaped
  sequence, \<^verbatim>\<open>it\'s\<close>, is escaped again; its quote gets a second backslash.
\<close>

theorem C7_already_escaped_counterexample:
  "escapeString [CHR ''i'', CHR ''t'', CHR 0x5C, CHR 0x27, CHR ''s'']
     = [CHR ''i'', CHR ''t'', CHR 0x5C, CHR 0x5C, CHR 0x27, CHR ''s'']
   \<and> escapeString [CHR ''i'', CHR ''t'', CHR 0x5C, CHR 0x27, CHR ''s'']
     \<noteq> [CHR ''i'', CHR ''t'', CHR 0x5C, CHR 0x27, CHR ''s'']"
  by (simp add: escapeString_chars quote_def backslash_def)

text \<open>
  C7, amended. The value formatter wraps a string in single quotes and escapes
  it in one pass: every single quote becomes a backslash and a quote, and no
  other character changes. So \<^verbatim>\<open>it's\<close> becomes \<^verbatim>\<open>it\'s\<close>. The pass does
  not recognise input that is escaped already: \<^verbatim>\<open>it\'s\<close> becomes \<^verbatim>\<open>it\\'s\<close>.
\<close>

theorem C7_string_escaping:
  "formatValue (VString s) = [quote] @ escapeString s @ [quote]
   \<and> escapeString s = concat (map (\<lambda>c. if c = quote then [backslash, quote] else [c]) s)
   \<and> quote = CHR 0x27 \<and> backslash = CHR 0x5C
   \<and> escapeString ''it's'' = [CHR ''i'', CHR ''t'', CHR 0x5C, CHR 0x27, CHR ''s'']
   \<and> escapeString [CHR ''i'', CHR ''t'', CHR 0x5C, CHR 0x27, CHR ''s'']
     = [CHR ''i'', CHR ''t'', CHR 0x5C, CHR 0x5C, CHR 0x27, CHR ''s'']"
  by (simp add: escapeString_chars quote_def backslash_def)

text \<open>
  C8, the claim as stated fails: \<open>And\<close> of no argument is the nil condition, and
  a builder that was given it panics when it renders; so does a negation of it.
\<close>

theorem C8_nil_condition_panics_counterexample:
  "BuildYQL (Where (From NewQueryBuilder [''products'']) (And [])) = None
   \<and> ToYQL (Not_cond (Or [])) = None"
  by (simp add: BuildYQL_def validate_def buildWhereClause_def Where_def From_def
      NewQueryBuilder_def Not_cond_def)

text \<open>
  C8, amended. Rendering returns a text exactly for the trees that hold no nil
  condition. The leaf constructors build such trees; \<open>Not\<close> and the grouped
  match build one from such arguments; \<open>And\<close> and \<open>Or\<close> build one from such
  arguments unless they are given none, when they return nil. A rank expression
  renders exactly when none of its conditions holds a nil, and \<open>BuildYQL\<close> and
  \<open>Build\<close> return (a query or a validation error) exactly when validation fails
  or no condition holds one. A value of an unsupported kind is rendered as its
  default text between quotes, never as an error, and a grouped match or a rank
  expression with no condition renders to the empty string.
\<close>

theorem C8_rendering_total:
  "(\<exists>s. ToYQL c = Some s) = nil_free c
   \<and> (nil_free (Eq f v) \<and> nil_free (NotEq f v) \<and> nil_free (Gt f v) \<and> nil_free (Gte f v)
      \<and> nil_free (Lt f v) \<and> nil_free (Lte f v) \<and> nil_free (In f vs) \<and> nil_free (NotIn f vs)
      \<and> nil_free (Contains f v copts) \<and> nil_free (NotContains f str) \<and> nil_free (Matches f str)
      \<and> nil_free (Between f mn mx) \<and> nil_free (Field_NearestNeighbor f qv n opts)
      \<and> nil_free (UserQuery ix) \<and> nil_free (Custom ex))
   \<and> nil_free (Not_cond c) = nil_free c
   \<and> nil_free (ContainsSameElement f cs) = list_all nil_free cs
   \<and> nil_free (And cs) = (cs \<noteq> [] \<and> list_all nil_free cs)
   \<and> nil_free (Or cs) = (cs \<noteq> [] \<and> list_all nil_free cs)
   \<and> (\<exists>s. Rank_ToYQL r = Some s) = list_all nil_free (conditions r)
   \<and> (\<exists>y. BuildYQL qb = Some y) = (validate qb = None \<longrightarrow> panic_free qb)
   \<and> (\<exists>y. Build qb = Some y) = (validate qb = None \<longrightarrow> panic_free qb)
   \<and> formatValue (VOther t) = [quote] @ t @ [quote]
   \<and> formatValue (VStrings ss) = [quote] @ ''['' @ strings_Join ss '' '' @ '']'' @ [quote]
   \<and> formatValue (VSlice vs) =
       [quote] @ ''['' @ strings_Join (map sprint_v vs) '' '' @ '']'' @ [quote]
   \<and> ToYQL (SameElementCondition fld []) = Some []
   \<and> Rank_ToYQL NewRank = Some []"
proof -
  have wrappers:
    "nil_free (Not_cond c) = nil_free c"
    "nil_free (ContainsSameElement f cs) = list_all nil_free cs"
    by (simp_all add: Not_cond_def ContainsSameElement_def)
  have fallback:
    "formatValue (VOther t) = [quote] @ t @ [quote]"
    "formatValue (VStrings ss) = [quote] @ ''['' @ strings_Join ss '' '' @ '']'' @ [quote]"
    "formatValue (VSlice vs) =
       [quote] @ ''['' @ strings_Join (map sprint_v vs) '' '' @ '']'' @ [quote]"
    by simp_all
  have empties: "ToYQL (SameElementCondition fld []) = Some []" "Rank_ToYQL NewRank = Some []"
    by (simp_all add: Rank_ToYQL_def NewRank_def)
  from ToYQL_Some_iff [of c] nil_free_leaves [of f v vs copts str mn mx qv n opts ix ex]
    wrappers nil_free_And [of cs] nil_free_Or [of cs] Rank_ToYQL_Some_iff [of r]
    BuildYQL_Some_iff [of qb] Build_Some_iff [of qb] fallback empties
  show ?thesis by blast
qed

theorem C8_rendering_total_witness:
  "validate (Rank (Where (From NewQueryBuilder [''products''])
               (And [Eq (Field' ''a'') (VOther ''{1 2}''),
                     Not_cond (ContainsSameElement (Field' ''s'') [])]))
             (Some NewRank)) = None
   \<and> panic_free (Rank (Where (From NewQueryBuilder [''products''])
               (And [Eq (Field' ''a'') (VOther ''{1 2}''),
                     Not_cond (ContainsSameElement (Field' ''s'') [])]))
             (Some NewRank))
   \<and> BuildYQL (Rank (Where (From NewQueryBuilder [''products''])
               (And [Eq (Field' ''a'') (VOther ''{1 2}''),
                     Not_cond (ContainsSameElement (Field' ''s'') [])]))
             (Some NewRank))
      = Some (''select * from sources products where ((a = '{1 2}') AND !())'', None)"
  using C8_rendering_total [where c = "And [Eq (Field' ''a'') (VOther ''{1 2}''),
                     Not_cond (ContainsSameElement (Field' ''s'') [])]"
      and r = NewRank
      and qb = "Rank (Where (From NewQueryBuilder [''products''])
               (And [Eq (Field' ''a'') (VOther ''{1 2}''),
                     Not_cond (ContainsSameElement (Field' ''s'') [])]))
             (Some NewRank)"]
  by (simp add: BuildYQL_def validate_def buildWhereClause_def buildSelectClause_def
      buildFromClause_def Rank_def Where_def From_def NewQueryBuilder_def NewRank_def
      Rank_ToYQL_def panic_free_def Eq_def Not_cond_def ContainsSameElement_def Field'_def
      FieldCondition_ToYQL_def EQ_def isString_def quote_def)

text \<open>
  C9, the claim as stated fails: a combinator keeps a child that renders to the
  empty string (\<^verbatim>\<open>( AND x)\<close>, where \<open>And\<close> of the other child alone is
  \<^verbatim>\<open>x\<close>), and a negation of an empty grouped match renders as \<^verbatim>\<open>!()\<close>.
\<close>

theorem C9_empty_child_kept_counterexample:
  "ToYQL (Custom []) = Some []
   \<and> ToYQL (And [Custom [], Custom ''x'']) = Some ''( AND x)''
   \<and> ToYQL (And [Custom ''x'']) = Some ''x''
   \<and> ToYQL (Not_cond (ContainsSameElement (Field' ''f'') [])) = Some ''!()''"
  by (simp add: Custom_def Not_cond_def ContainsSameElement_def)

text \<open>
  C9, amended. Rendering a node with no nil condition in it returns a text,
  possibly empty. A grouped match, a rank expression and the where clause leave
  out a child that renders to the empty string: the result is that of the same
  parent without the child; the where clause leaves out a rank expression that
  renders to the empty string. A combinator and a negation put the rendering
  of every child, empty or not, into their templates \<^verbatim>\<open>(left OP right)\<close> and
  \<^verbatim>\<open>!(inner)\<close>.
\<close>

theorem C9_empty_children:
  "(nil_free c \<longrightarrow> (\<exists>s. ToYQL c = Some s))
   \<and> (ToYQL c = Some [] \<longrightarrow>
        ToYQL (SameElementCondition fld (xs @ c # ys)) = ToYQL (SameElementCondition fld (xs @ ys))
        \<and> Rank_ToYQL \<lparr>conditions = xs @ c # ys\<rparr> = Rank_ToYQL \<lparr>conditions = xs @ ys\<rparr>
        \<and> buildWhereClause (qb\<lparr>whereConditions := xs @ c # ys\<rparr>) =
          buildWhereClause (qb\<lparr>whereConditions := xs @ ys\<rparr>))
   \<and> (Rank_ToYQL r = Some [] \<longrightarrow>
        buildWhereClause (qb\<lparr>rankExpression := Some r\<rparr>) =
        buildWhereClause (qb\<lparr>rankExpression := None\<rparr>))
   \<and> (ToYQL lft = Some a \<and> ToYQL rgt = Some b \<longrightarrow>
        ToYQL (BooleanCondition lft rgt oper) = Some (''('' @ a @ '' '' @ oper @ '' '' @ b @ '')''))
   \<and> (ToYQL c = Some a \<longrightarrow> ToYQL (NotCondition c) = Some (''!('' @ a @ '')''))"
proof (intro conjI impI)
  assume "nil_free c"
  then show "\<exists>s. ToYQL c = Some s" by (simp add: ToYQL_Some_iff)
next
  assume a: "ToYQL c = Some []"
  note d = collectYQL_drop_empty [OF a]
  show "ToYQL (SameElementCondition fld (xs @ c # ys)) = ToYQL (SameElementCondition fld (xs @ ys))"
    by (cases "xs @ ys = []") (auto simp: d a split: option.splits)
  show "Rank_ToYQL \<lparr>conditions = xs @ c # ys\<rparr> = Rank_ToYQL \<lparr>conditions = xs @ ys\<rparr>"
    by (cases "xs @ ys = []") (auto simp: Rank_ToYQL_def d a split: option.splits)
  show "buildWhereClause (qb\<lparr>whereConditions := xs @ c # ys\<rparr>) =
        buildWhereClause (qb\<lparr>whereConditions := xs @ ys\<rparr>)"
    by (simp add: buildWhereClause_def d cong: option.case_cong)
next
  assume "Rank_ToYQL r = Some []"
  then show "buildWhereClause (qb\<lparr>rankExpression := Some r\<rparr>) =
        buildWhereClause (qb\<lparr>rankExpression := None\<rparr>)"
    by (simp add: buildWhereClause_def cong: option.case_cong)
next
  assume "ToYQL lft = Some a \<and> ToYQL rgt = Some b"
  then show "ToYQL (BooleanCondition lft rgt oper) = Some (''('' @ a @ '' '' @ oper @ '' '' @ b @ '')'')"
    by simp
next
  assume "ToYQL c = Some a"
  then show "ToYQL (NotCondition c) = Some (''!('' @ a @ '')'')" by simp
qed

theorem C9_empty_children_witness:
  "nil_free (Custom []) \<and> ToYQL (Custom []) = Some []
   \<and> ToYQL (SameElementCondition ''f'' [Custom ''a'', Custom [], Custom ''b''])
     = Some ''(f contains sameElement(a, b))''
   \<and> Rank_ToYQL \<lparr>conditions = [Custom ''a'', Custom [], Custom ''b'']\<rparr> = Some ''rank(a, b)''
   \<and> buildWhereClause
        ((From NewQueryBuilder [''p''])\<lparr>whereConditions := [Custom ''a'', Custom [], Custom ''b'']\<rparr>)
     = Some ''a and b''
   \<and> Rank_ToYQL NewRank = Some []
   \<and> buildWhereClause ((From NewQueryBuilder [''p''])\<lparr>rankExpression := Some NewRank\<rparr>) = Some []
   \<and> ToYQL (BooleanCondition (Custom []) (Custom ''x'') ''AND'') = Some ''( AND x)''
   \<and> ToYQL (NotCondition (Custom [])) = Some ''!()''"
  using C9_empty_children [where c = "Custom []" and fld = "''f''" and xs = "[Custom ''a'']"
      and ys = "[Custom ''b'']" and qb = "From NewQueryBuilder [''p'']" and r = NewRank
      and lft = "Custom []" and a = "[]" and rgt = "Custom ''x''" and b = "''x''"
      and oper = "''AND''"]
  by (simp add: Custom_def Rank_ToYQL_def NewRank_def buildWhereClause_def From_def
      NewQueryBuilder_def)

text \<open>
  C10, the claim as stated fails: the float 1000000 is formatted in exponent
  notation.
\<close>

theorem C10_exponent_notation_counterexample:
  "formatValue (VFloat (FDec False [1] 7)) = ''1e+06''"
  by (simp add: fmtE_def digit_char_def)

text \<open>
  C10, amended. A boolean is formatted as \<^verbatim>\<open>true\<close> or \<^verbatim>\<open>false\<close>; an integer
  as its decimal numeral (digits only after an optional minus sign, no leading
  zero, reading back as the number). A float is formatted from the shortest
  decimal \<open>0.d\<^sub>1\<dots>d\<^sub>n \<times> 10\<^sup>d\<^sup>p\<close> that identifies it. When the decimal exponent
  \<open>dp - 1\<close> lies between \<open>-4\<close> and \<open>5\<close> the text is in fixed-point form: the
  sign, the digits before the point, and the point and the digits after it if
  there are any. For every other finite float the text is in exponent notation:
  the sign, the mantissa, the letter \<^verbatim>\<open>e\<close>, the sign of the exponent and the
  exponent with at least two digits. An infinity is formatted as \<^verbatim>\<open>+Inf\<close> or
  \<^verbatim>\<open>-Inf\<close> and a NaN as \<^verbatim>\<open>NaN\<close>, which is neither form.
\<close>

theorem C10_primitive_formatting:
  "formatValue (VBool b) = (if b then ''true'' else ''false'')
   \<and> formatValue (VInt i) = (if i < 0 then CHR ''-'' # fmt_nat (nat (- i)) else fmt_nat (nat i))
   \<and> formatValue (VUint n) = fmt_nat n
   \<and> list_all is_digit (fmt_nat n) \<and> (hd (fmt_nat n) = CHR ''0'') = (n = 0)
   \<and> read_nat (fmt_nat n) = n
   \<and> (CHR ''e'' \<in> set (formatValue (VFloat (FDec neg d dp)))) = (dp < - 3 \<or> 7 \<le> dp)
   \<and> fixed_point (formatValue (VFloat (FDec neg d dp))) = (- 3 \<le> dp \<and> dp \<le> 6)
   \<and> exponent_form (formatValue (VFloat (FDec neg d dp))) = (dp < - 3 \<or> 7 \<le> dp)
   \<and> (- 3 \<le> dp \<and> dp \<le> 6 \<longrightarrow>
        formatValue (VFloat (FDec neg d dp)) =
          (if neg then ''-'' else []) @ map digit_char (int_digits d dp) @
          (if frac_digits d dp = [] then [] else CHR ''.'' # map digit_char (frac_digits d dp)))
   \<and> ((dp < - 3 \<or> 7 \<le> dp) \<and> d \<noteq> [] \<and> \<bar>dp - 1\<bar> < 1000 \<longrightarrow>
        formatValue (VFloat (FDec neg d dp)) =
          (if neg then ''-'' else []) @ mantissa d @
          CHR ''e'' # (if dp < 1 then CHR ''-'' else CHR ''+'') #
          (if nat \<bar>dp - 1\<bar> < 10 then CHR ''0'' # fmt_nat (nat \<bar>dp - 1\<bar>)
           else fmt_nat (nat \<bar>dp - 1\<bar>)))
   \<and> formatValue (VFloat (FInf False)) = ''+Inf''
   \<and> formatValue (VFloat (FInf True)) = ''-Inf''
   \<and> formatValue (VFloat FNaN) = ''NaN''
   \<and> \<not> fixed_point (formatValue (VFloat (FInf sg))) \<and> \<not> exponent_form (formatValue (VFloat (FInf sg)))
   \<and> \<not> fixed_point (formatValue (VFloat FNaN)) \<and> \<not> exponent_form (formatValue (VFloat FNaN))"
proof -
  have prim: "formatValue (VBool b) = (if b then ''true'' else ''false'')"
    "formatValue (VInt i) = (if i < 0 then CHR ''-'' # fmt_nat (nat (- i)) else fmt_nat (nat i))"
    "formatValue (VUint n) = fmt_nat n"
    by (simp_all add: fmt_t_def fmt_d_def)
  have e_iff: "(CHR ''e'' \<in> set (formatValue (VFloat (FDec neg d dp)))) = (dp < - 3 \<or> 7 \<le> dp)"
    by (auto simp: Let_def e_notin_fmtF e_in_fmtE)
  have fixed_iff: "fixed_point (formatValue (VFloat (FDec neg d dp))) = (- 3 \<le> dp \<and> dp \<le> 6)"
  proof (cases "- 3 \<le> dp \<and> dp \<le> 6")
    case True
    then show ?thesis using fixed_point_fmtF [of neg d dp] by (auto simp: Let_def)
  next
    case False
    with e_iff have "CHR ''e'' \<in> set (formatValue (VFloat (FDec neg d dp)))" by auto
    with fixed_point_no_e False show ?thesis by blast
  qed
  have exp_iff: "exponent_form (formatValue (VFloat (FDec neg d dp))) = (dp < - 3 \<or> 7 \<le> dp)"
  proof (cases "dp < - 3 \<or> 7 \<le> dp")
    case True
    then show ?thesis using exponent_form_fmtE [of neg d dp] by (auto simp: Let_def)
  next
    case False
    with e_iff have "CHR ''e'' \<notin> set (formatValue (VFloat (FDec neg d dp)))" by auto
    with exponent_form_has_e False show ?thesis by blast
  qed
  have fixed_text: "- 3 \<le> dp \<and> dp \<le> 6 \<longrightarrow>
        formatValue (VFloat (FDec neg d dp)) =
          (if neg then ''-'' else []) @ map digit_char (int_digits d dp) @
          (if frac_digits d dp = [] then [] else CHR ''.'' # map digit_char (frac_digits d dp))"
    using fmtF_positional [of neg d dp] by (auto simp: Let_def)
  have exp_text: "(dp < - 3 \<or> 7 \<le> dp) \<and> d \<noteq> [] \<and> \<bar>dp - 1\<bar> < 1000 \<longrightarrow>
        formatValue (VFloat (FDec neg d dp)) =
          (if neg then ''-'' else []) @ mantissa d @
          CHR ''e'' # (if dp < 1 then CHR ''-'' else CHR ''+'') #
          (if nat \<bar>dp - 1\<bar> < 10 then CHR ''0'' # fmt_nat (nat \<bar>dp - 1\<bar>)
           else fmt_nat (nat \<bar>dp - 1\<bar>))"
  proof (intro impI)
    assume a: "(dp < - 3 \<or> 7 \<le> dp) \<and> d \<noteq> [] \<and> \<bar>dp - 1\<bar> < 1000"
    then have lt: "nat \<bar>dp - 1\<bar> < 1000" by auto
    from a have f: "formatValue (VFloat (FDec neg d dp)) = fmtE neg d dp (length d - 1)"
      by (auto simp add: Let_def simp del: One_nat_def)
    from a have sg: "(d \<noteq> [] \<and> dp < 1) = (dp < 1)" by simp
    show "formatValue (VFloat (FDec neg d dp)) =
          (if neg then ''-'' else []) @ mantissa d @
          CHR ''e'' # (if dp < 1 then CHR ''-'' else CHR ''+'') #
          (if nat \<bar>dp - 1\<bar> < 10 then CHR ''0'' # fmt_nat (nat \<bar>dp - 1\<bar>)
           else fmt_nat (nat \<bar>dp - 1\<bar>))"
      unfolding f fmtE_shortest Let_def sg
      using a by (simp only: exponent_text [OF lt] if_False)
  qed
  have special: "formatValue (VFloat (FInf False)) = ''+Inf''"
    "formatValue (VFloat (FInf True)) = ''-Inf''" "formatValue (VFloat FNaN) = ''NaN''"
    by simp_all
  have neither: "\<not> fixed_point (formatValue (VFloat (FInf sg)))"
    "\<not> exponent_form (formatValue (VFloat (FInf sg)))"
    "\<not> fixed_point (formatValue (VFloat FNaN))" "\<not> exponent_form (formatValue (VFloat FNaN))"
    by (simp_all add: fixed_point_def exponent_form_def strip_minus_def is_digit_def Let_def)
  from prim fmt_nat_digits [of n] hd_fmt_nat_zero [of n] read_nat_fmt_nat [of n] e_iff fixed_iff
    exp_iff fixed_text exp_text special neither
  show ?thesis by blast
qed

theorem C10_primitive_formatting_witness:
  "formatValue (VFloat (FDec False [1] 6)) = ''100000''
   \<and> formatValue (VFloat (FDec False [3, 1, 4] 1)) = ''3.14''
   \<and> formatValue (VFloat (FDec True [9, 9, 9, 9] 2)) = ''-99.99''
   \<and> formatValue (VFloat (FDec False [1] (- 3))) = ''0.0001''
   \<and> formatValue (VFloat (FDec False [] 0)) = ''0''
   \<and> formatValue (VFloat (FDec False [1] (- 4))) = ''1e-05''
   \<and> formatValue (VFloat (FDec False [1, 2, 3, 4, 5, 6, 7, 8, 9] 9)) = ''1.23456789e+08''
   \<and> formatValue (VFloat (FDec True [2, 5] (- 6))) = ''-2.5e-07''
   \<and> formatValue (VFloat (FDec False [1] 101)) = ''1e+100''"
proof -
  have r: "replicate 5 c = [c, c, c, c, c]" "replicate 3 c = [c, c, c]" for c :: 'a
    by (simp_all add: eval_nat_numeral)
  show ?thesis
    using C10_primitive_formatting [where b = True and i = 0 and n = 0 and sg = False and neg = False and d = "[1]" and dp = 6]
      C10_primitive_formatting [where b = True and i = 0 and n = 0 and sg = False and neg = False and d = "[3, 1, 4]" and dp = 1]
      C10_primitive_formatting [where b = True and i = 0 and n = 0 and sg = False and neg = True and d = "[9, 9, 9, 9]" and dp = 2]
      C10_primitive_formatting [where b = True and i = 0 and n = 0 and sg = False and neg = False and d = "[1]" and dp = "- 3"]
      C10_primitive_formatting [where b = True and i = 0 and n = 0 and sg = False and neg = False and d = "[]" and dp = 0]
      C10_primitive_formatting [where b = True and i = 0 and n = 0 and sg = False and neg = False and d = "[1]" and dp = "- 4"]
      C10_primitive_formatting [where b = True and i = 0 and n = 0 and sg = False and neg = False and d = "[1, 2, 3, 4, 5, 6, 7, 8, 9]" and dp = 9]
      C10_primitive_formatting [where b = True and i = 0 and n = 0 and sg = False and neg = True and d = "[2, 5]" and dp = "- 6"]
      C10_primitive_formatting [where b = True and i = 0 and n = 0 and sg = False and neg = False and d = "[1]" and dp = 101]
    by (simp del: formatValue.simps
        add: int_digits_def frac_digits_def mantissa_def digit_char_def fmt_nat.simps r)
qed

end
